theory Spec2Isabelle
  imports Main
begin

section \<open>Data model\<close>

text \<open>
  The persisted state is the five tables of \<^verbatim>\<open>models/audit_models.py\<close>
  (\<^verbatim>\<open>AuditTemplate\<close>, \<^verbatim>\<open>AuditArea\<close>, \<^verbatim>\<open>AuditScope\<close>, \<^verbatim>\<open>AuditQuestion\<close>,
  \<^verbatim>\<open>AuditQuestionOption\<close>), named by their \<^verbatim>\<open>__tablename__\<close>, each a list of rows in
  insertion order. A row refers to its
  parent through the foreign-key column, as in the schema; ORM objects held by the service
  are rows addressed by primary key, so an attribute assignment on an object is an update
  of the row with that key.

  Primary keys are UUIDs drawn by \<^verbatim>\<open>uuid7_pk\<close>; they are opaque and fresh, which the model
  renders as natural numbers taken from a counter kept with the tables. The timestamp
  columns \<^verbatim>\<open>created_at\<close>/\<^verbatim>\<open>updated_at\<close> are filled by the database server from the wall
  clock and are left out. A relationship is read in table order; the code orders it by
  \<^verbatim>\<open>created_at\<close>, which does not separate rows written in one transaction, so the order of
  siblings in a response is the model's and nothing below is meant to rest on it.
\<close>

type_synonym uuid = nat

record template_row =
  t_id :: uuid
  t_name :: string
  t_isactive :: bool
  t_created_by :: "int option"
  t_updated_by :: "int option"

record area_row =
  a_id :: uuid
  a_template_id :: uuid
  a_name :: string
  a_weightage :: int
  a_isactive :: bool
  a_created_by :: "int option"
  a_updated_by :: "int option"

record scope_row =
  s_id :: uuid
  s_area_id :: uuid
  s_name :: string
  s_isactive :: bool
  s_created_by :: "int option"
  s_updated_by :: "int option"

record question_row =
  q_id :: uuid
  q_scope_id :: uuid
  q_text :: string
  q_percentage :: int
  q_is_mandatory :: bool
  q_isactive :: bool
  q_created_by :: "int option"
  q_updated_by :: "int option"

record option_row =
  o_id :: uuid
  o_question_id :: uuid
  o_label :: string
  o_value :: int
  o_isactive :: bool
  o_created_by :: "int option"
  o_updated_by :: "int option"

record db =
  audit_templates :: "template_row list"
  audit_areas :: "area_row list"
  audit_scopes :: "scope_row list"
  audit_questions :: "question_row list"
  audit_question_options :: "option_row list"
  next_id :: uuid

text \<open>
  Request payloads (\<^verbatim>\<open>schemas/\<close>). The nested update schemas carry an optional \<^verbatim>\<open>id\<close>;
  the nested create schemas have none, and nothing on the create path reads one, so one
  family of records serves both. \<^verbatim>\<open>QuestionCreate.options\<close> may be \<^verbatim>\<open>None\<close>; every reader
  takes \<^verbatim>\<open>q.get("options", []) or []\<close>, so \<^verbatim>\<open>None\<close> is the empty list here.
\<close>

record option_payload =
  op_id :: "uuid option"
  op_label :: string
  op_value :: int

record question_payload =
  qp_id :: "uuid option"
  qp_text :: string
  qp_percentage :: int
  qp_is_mandatory :: bool
  qp_options :: "option_payload list"

record scope_payload =
  sp_id :: "uuid option"
  sp_name :: string
  sp_questions :: "question_payload list"

record area_payload =
  ap_id :: "uuid option"
  ap_name :: string
  ap_weightage :: int
  ap_scopes :: "scope_payload list"

record template_payload =
  tp_name :: string
  tp_areas :: "area_payload list"

text \<open>
  Exceptions. \<^verbatim>\<open>HTTPException(status_code, detail)\<close> is what the service raises itself;
  \<^verbatim>\<open>MultipleResultsFound\<close> is what \<^verbatim>\<open>scalar_one_or_none\<close> raises on more than one row, and
  \<^verbatim>\<open>AttributeError\<close> what reading a field of \<^verbatim>\<open>None\<close> raises.
\<close>

datatype error = HTTPException nat string | MultipleResultsFound | AttributeError

fun status_code :: "error \<Rightarrow> nat" where
  "status_code (HTTPException c _) = c"
| "status_code MultipleResultsFound = 500"
| "status_code AttributeError = 500"

section \<open>String helpers\<close>

text \<open>
  A Python \<^verbatim>\<open>str\<close> is a sequence of code points; the model has the code points below 256
  (Latin-1), one \<open>char\<close> each. On that range \<^verbatim>\<open>str.strip()\<close> removes the white space
  Python knows there (9 to 13, 28 to 32, U+0085 and U+00A0) and \<^verbatim>\<open>str.lower()\<close> folds A to Z
  and the capital letters U+00C0 to U+00DE other than the multiplication sign U+00D7.
  Also here: the \<^verbatim>\<open>f"{val}"\<close> rendering of an integer.
\<close>

definition is_space :: "char \<Rightarrow> bool" where
  "is_space c = (let n = (of_char c :: nat)
                 in (9 \<le> n \<and> n \<le> 13) \<or> (28 \<le> n \<and> n \<le> 32) \<or> n = 133 \<or> n = 160)"

definition strip :: "string \<Rightarrow> string" where
  "strip s = rev (dropWhile is_space (rev (dropWhile is_space s)))"

definition lower_char :: "char \<Rightarrow> char" where
  "lower_char c = (let n = (of_char c :: nat)
                   in if (65 \<le> n \<and> n \<le> 90) \<or> (192 \<le> n \<and> n \<le> 222 \<and> n \<noteq> 215)
                      then char_of (n + 32) else c)"

definition lower :: "string \<Rightarrow> string" where
  "lower s = map lower_char s"

fun str_nat :: "nat \<Rightarrow> string" where
  "str_nat n = (if n < 10 then [char_of (48 + n)] else str_nat (n div 10) @ [char_of (48 + n mod 10)])"

definition str_int :: "int \<Rightarrow> string" where
  "str_int i = (if i < 0 then CHR ''-'' # str_nat (nat (- i)) else str_nat (nat i))"

definition quoted :: "string \<Rightarrow> string" where
  "quoted s = CHR 0x27 # s @ [CHR 0x27]"

section \<open>Tree validators\<close>

text \<open>A \<^verbatim>\<open>for\<close> loop whose body may raise: the first exception ends the loop.\<close>

fun for_each :: "('a \<Rightarrow> error + unit) \<Rightarrow> 'a list \<Rightarrow> error + unit" where
  "for_each f [] = Inr ()"
| "for_each f (x # xs) = (case f x of Inl e \<Rightarrow> Inl e | Inr _ \<Rightarrow> for_each f xs)"

text \<open>
  The loop shared by the uniqueness validators:
  \<^verbatim>\<open>key = ...; if key in seen: raise HTTPException(...); seen.add(key)\<close>.
\<close>

fun seen_loop :: "('a \<Rightarrow> 'k) \<Rightarrow> ('a \<Rightarrow> error) \<Rightarrow> 'k set \<Rightarrow> 'a list \<Rightarrow> error + unit" where
  "seen_loop key err seen [] = Inr ()"
| "seen_loop key err seen (x # xs) =
     (if key x \<in> seen then Inl (err x) else seen_loop key err (insert (key x) seen) xs)"

definition unprocessable :: "string \<Rightarrow> error" where
  "unprocessable detail = HTTPException 422 detail"

definition validate_scope_percentages :: "area_payload list \<Rightarrow> error + unit" where
  "validate_scope_percentages areas =
     (let total = fold (\<lambda>area total.
                    fold (\<lambda>scope total.
                      if sp_questions scope = [] then total
                      else total + sum_list (map qp_percentage (sp_questions scope)))
                    (ap_scopes area) total) areas (0::int)
      in if total \<noteq> 100
         then Inl (unprocessable ''Total weightage of all questions should be exactly 100%'')
         else Inr ())"

definition validate_area_names :: "area_payload list \<Rightarrow> error + unit" where
  "validate_area_names areas =
     seen_loop (\<lambda>area. lower (strip (ap_name area)))
       (\<lambda>area. unprocessable (''Duplicate area name: '' @ quoted (ap_name area))) {} areas"

definition validate_scope_names :: "area_payload list \<Rightarrow> error + unit" where
  "validate_scope_names areas =
     for_each (\<lambda>area.
       seen_loop (\<lambda>scope. lower (strip (sp_name scope)))
         (\<lambda>scope. unprocessable (''Duplicate scope name '' @ quoted (sp_name scope)
                      @ '' in area '' @ quoted (ap_name area))) {} (ap_scopes area)) areas"

definition validate_question_names :: "area_payload list \<Rightarrow> error + unit" where
  "validate_question_names areas =
     for_each (\<lambda>area. for_each (\<lambda>scope.
       seen_loop (\<lambda>q. lower (strip (qp_text q)))
         (\<lambda>q. unprocessable (''Duplicate question text '' @ quoted (qp_text q)
                  @ '' in scope '' @ quoted (sp_name scope)
                  @ '', area '' @ quoted (ap_name area))) {} (sp_questions scope))
       (ap_scopes area)) areas"

definition validate_option_labels :: "area_payload list \<Rightarrow> error + unit" where
  "validate_option_labels areas =
     for_each (\<lambda>area. for_each (\<lambda>scope. for_each (\<lambda>q.
       seen_loop (\<lambda>opt. lower (strip (op_label opt)))
         (\<lambda>opt. unprocessable (''Duplicate option label '' @ quoted (op_label opt)
                  @ '' in question '' @ quoted (qp_text q)
                  @ '', scope '' @ quoted (sp_name scope))) {} (qp_options q))
       (sp_questions scope)) (ap_scopes area)) areas"

definition validate_option_values :: "area_payload list \<Rightarrow> error + unit" where
  "validate_option_values areas =
     for_each (\<lambda>area. for_each (\<lambda>scope. for_each (\<lambda>q.
       seen_loop op_value
         (\<lambda>opt. unprocessable (''Duplicate option value '' @ str_int (op_value opt)
                  @ '' in question '' @ quoted (qp_text q)
                  @ '', scope '' @ quoted (sp_name scope))) {} (qp_options q))
       (sp_questions scope)) (ap_scopes area)) areas"

definition validate_empty_question_scopes_areas :: "area_payload list \<Rightarrow> error + unit" where
  "validate_empty_question_scopes_areas areas =
     for_each (\<lambda>area.
       if ap_scopes area = []
       then Inl (unprocessable (''Area '' @ quoted (ap_name area) @ '' must have at least one scope''))
       else for_each (\<lambda>scope.
         if sp_questions scope = []
         then Inl (unprocessable (''Scope '' @ quoted (sp_name scope) @ '' in area ''
                     @ quoted (ap_name area) @ '' must have at least one question''))
         else for_each (\<lambda>q.
           if qp_options q = []
           then Inl (unprocessable (''Question '' @ quoted (qp_text q) @ '' in scope ''
                       @ quoted (sp_name scope) @ '', area '' @ quoted (ap_name area)
                       @ '' must have at least one option''))
           else Inr ()) (sp_questions scope)) (ap_scopes area)) areas"

text \<open>
  The block of seven calls that \<^verbatim>\<open>create_template\<close>, \<^verbatim>\<open>update_template\<close> and
  \<^verbatim>\<open>clone_template\<close> each make under \<^verbatim>\<open># Validate all constraints\<close>: statements in sequence,
  the first exception leaving the block.
\<close>

definition validate_all_constraints :: "area_payload list \<Rightarrow> error + unit" where
  "validate_all_constraints areas_data =
     (case validate_empty_question_scopes_areas areas_data of Inl e \<Rightarrow> Inl e | Inr _ \<Rightarrow>
     (case validate_area_names areas_data of Inl e \<Rightarrow> Inl e | Inr _ \<Rightarrow>
     (case validate_scope_names areas_data of Inl e \<Rightarrow> Inl e | Inr _ \<Rightarrow>
     (case validate_question_names areas_data of Inl e \<Rightarrow> Inl e | Inr _ \<Rightarrow>
     (case validate_option_labels areas_data of Inl e \<Rightarrow> Inl e | Inr _ \<Rightarrow>
     (case validate_option_values areas_data of Inl e \<Rightarrow> Inl e | Inr _ \<Rightarrow>
      validate_scope_percentages areas_data))))))"

section \<open>Persistence gateway\<close>

text \<open>
  What a query with \<^verbatim>\<open>selectinload(... .and_(X.isactive.is_(True)))\<close> returns: the row
  together with its active children, level by level.
\<close>

record loaded_question =
  lq_row :: question_row
  lq_options :: "option_row list"

record loaded_scope =
  ls_row :: scope_row
  ls_questions :: "loaded_question list"

record loaded_area =
  la_row :: area_row
  la_scopes :: "loaded_scope list"

record loaded_template =
  lt_row :: template_row
  lt_areas :: "loaded_area list"

definition load_options :: "db \<Rightarrow> uuid \<Rightarrow> option_row list" where
  "load_options d qid =
     filter (\<lambda>r. o_question_id r = qid \<and> o_isactive r) (audit_question_options d)"

definition load_questions :: "db \<Rightarrow> uuid \<Rightarrow> loaded_question list" where
  "load_questions d sid =
     map (\<lambda>r. \<lparr>lq_row = r, lq_options = load_options d (q_id r)\<rparr>)
       (filter (\<lambda>r. q_scope_id r = sid \<and> q_isactive r) (audit_questions d))"

definition load_scopes :: "db \<Rightarrow> uuid \<Rightarrow> loaded_scope list" where
  "load_scopes d aid =
     map (\<lambda>r. \<lparr>ls_row = r, ls_questions = load_questions d (s_id r)\<rparr>)
       (filter (\<lambda>r. s_area_id r = aid \<and> s_isactive r) (audit_scopes d))"

definition load_areas :: "db \<Rightarrow> uuid \<Rightarrow> loaded_area list" where
  "load_areas d tid =
     map (\<lambda>r. \<lparr>la_row = r, la_scopes = load_scopes d (a_id r)\<rparr>)
       (filter (\<lambda>r. a_template_id r = tid \<and> a_isactive r) (audit_areas d))"

text \<open>
  \<^verbatim>\<open>AuditTemplateRepository.get_by_id\<close>: \<^verbatim>\<open>where(id == template_id and isactive)\<close>. The
  primary key admits one row at most, so \<^verbatim>\<open>scalar_one_or_none\<close> is the first match.
\<close>

definition get_by_id :: "db \<Rightarrow> uuid \<Rightarrow> template_row option" where
  "get_by_id d template_id =
     find (\<lambda>t. t_id t = template_id \<and> t_isactive t) (audit_templates d)"

text \<open>
  \<^verbatim>\<open>get_by_id_with_details\<close>: \<^verbatim>\<open>where(AuditTemplate.id == template_id)\<close> and nothing
  else on the template row; the four \<^verbatim>\<open>selectinload\<close>s filter the children.
\<close>

definition get_by_id_with_details :: "db \<Rightarrow> uuid \<Rightarrow> loaded_template option" where
  "get_by_id_with_details d template_id =
     (case find (\<lambda>t. t_id t = template_id) (audit_templates d) of
        None \<Rightarrow> None
      | Some t \<Rightarrow> Some \<lparr>lt_row = t, lt_areas = load_areas d template_id\<rparr>)"

text \<open>
  \<^verbatim>\<open>get_by_name\<close>: \<^verbatim>\<open>where(name == name and isactive)\<close>, SQL equality on a
  \<^verbatim>\<open>String(255)\<close> column. The column has no unique constraint, so
  \<^verbatim>\<open>scalar_one_or_none\<close> can meet several rows and raise.
\<close>

definition get_by_name :: "db \<Rightarrow> string \<Rightarrow> error + template_row option" where
  "get_by_name d name =
     (case filter (\<lambda>t. t_name t = name \<and> t_isactive t) (audit_templates d) of
        [] \<Rightarrow> Inr None
      | [t] \<Rightarrow> Inr (Some t)
      | _ \<Rightarrow> Inl MultipleResultsFound)"

text \<open>\<^verbatim>\<open>if updated_by is not None: obj.updated_by = updated_by\<close>\<close>

definition stamp :: "int option \<Rightarrow> int option \<Rightarrow> int option" where
  "stamp user_id old = (case user_id of None \<Rightarrow> old | Some u \<Rightarrow> Some u)"

text \<open>The template and area \<^verbatim>\<open>soft_delete\<close> of the two repositories.\<close>

definition soft_delete_template :: "uuid \<Rightarrow> int option \<Rightarrow> db \<Rightarrow> db" where
  "soft_delete_template i updated_by d =
     d\<lparr>audit_templates := map (\<lambda>r. if t_id r = i
          then r\<lparr>t_isactive := False, t_updated_by := stamp updated_by (t_updated_by r)\<rparr>
          else r) (audit_templates d)\<rparr>"

definition soft_delete_area :: "uuid \<Rightarrow> int option \<Rightarrow> db \<Rightarrow> db" where
  "soft_delete_area i updated_by d =
     d\<lparr>audit_areas := map (\<lambda>r. if a_id r = i
          then r\<lparr>a_isactive := False, a_updated_by := stamp updated_by (a_updated_by r)\<rparr>
          else r) (audit_areas d)\<rparr>"

text \<open>
  The same two assignments (\<^verbatim>\<open>isactive = False\<close>, the guarded \<^verbatim>\<open>updated_by\<close>) as
  \<^verbatim>\<open>update_template\<close> makes them inline on areas, scopes, questions and options.
\<close>

definition deactivate_area :: "uuid \<Rightarrow> int option \<Rightarrow> db \<Rightarrow> db" where
  "deactivate_area i user_id d =
     d\<lparr>audit_areas := map (\<lambda>r. if a_id r = i
          then r\<lparr>a_isactive := False, a_updated_by := stamp user_id (a_updated_by r)\<rparr>
          else r) (audit_areas d)\<rparr>"

definition deactivate_scope :: "uuid \<Rightarrow> int option \<Rightarrow> db \<Rightarrow> db" where
  "deactivate_scope i user_id d =
     d\<lparr>audit_scopes := map (\<lambda>r. if s_id r = i
          then r\<lparr>s_isactive := False, s_updated_by := stamp user_id (s_updated_by r)\<rparr>
          else r) (audit_scopes d)\<rparr>"

definition deactivate_question :: "uuid \<Rightarrow> int option \<Rightarrow> db \<Rightarrow> db" where
  "deactivate_question i user_id d =
     d\<lparr>audit_questions := map (\<lambda>r. if q_id r = i
          then r\<lparr>q_isactive := False, q_updated_by := stamp user_id (q_updated_by r)\<rparr>
          else r) (audit_questions d)\<rparr>"

definition deactivate_option :: "uuid \<Rightarrow> int option \<Rightarrow> db \<Rightarrow> db" where
  "deactivate_option i user_id d =
     d\<lparr>audit_question_options := map (\<lambda>r. if o_id r = i
          then r\<lparr>o_isactive := False, o_updated_by := stamp user_id (o_updated_by r)\<rparr>
          else r) (audit_question_options d)\<rparr>"

text \<open>
  \<^verbatim>\<open>self.db.add(obj)\<close> of a new row with \<^verbatim>\<open>isactive=True\<close> and both stamps set to the
  acting user. The key is drawn when the row is written; being opaque, it is drawn here
  when the row is added.
\<close>

definition add_template :: "string \<Rightarrow> int option \<Rightarrow> db \<Rightarrow> db" where
  "add_template name created_by d =
     d\<lparr>audit_templates := audit_templates d @
          [\<lparr>t_id = next_id d, t_name = name, t_isactive = True,
            t_created_by = created_by, t_updated_by = created_by\<rparr>],
       next_id := Suc (next_id d)\<rparr>"

definition add_area :: "uuid \<Rightarrow> string \<Rightarrow> int \<Rightarrow> int option \<Rightarrow> db \<Rightarrow> db" where
  "add_area template_id name weightage created_by d =
     d\<lparr>audit_areas := audit_areas d @
          [\<lparr>a_id = next_id d, a_template_id = template_id, a_name = name,
            a_weightage = weightage, a_isactive = True,
            a_created_by = created_by, a_updated_by = created_by\<rparr>],
       next_id := Suc (next_id d)\<rparr>"

definition add_scope :: "uuid \<Rightarrow> string \<Rightarrow> int option \<Rightarrow> db \<Rightarrow> db" where
  "add_scope area_id name created_by d =
     d\<lparr>audit_scopes := audit_scopes d @
          [\<lparr>s_id = next_id d, s_area_id = area_id, s_name = name, s_isactive = True,
            s_created_by = created_by, s_updated_by = created_by\<rparr>],
       next_id := Suc (next_id d)\<rparr>"

definition add_question :: "uuid \<Rightarrow> string \<Rightarrow> int \<Rightarrow> bool \<Rightarrow> int option \<Rightarrow> db \<Rightarrow> db" where
  "add_question scope_id text percentage is_mandatory created_by d =
     d\<lparr>audit_questions := audit_questions d @
          [\<lparr>q_id = next_id d, q_scope_id = scope_id, q_text = text,
            q_percentage = percentage, q_is_mandatory = is_mandatory, q_isactive = True,
            q_created_by = created_by, q_updated_by = created_by\<rparr>],
       next_id := Suc (next_id d)\<rparr>"

definition add_option :: "uuid \<Rightarrow> string \<Rightarrow> int \<Rightarrow> int option \<Rightarrow> db \<Rightarrow> db" where
  "add_option question_id label val created_by d =
     d\<lparr>audit_question_options := audit_question_options d @
          [\<lparr>o_id = next_id d, o_question_id = question_id, o_label = label,
            o_value = val, o_isactive = True,
            o_created_by = created_by, o_updated_by = created_by\<rparr>],
       next_id := Suc (next_id d)\<rparr>"

text \<open>
  \<^verbatim>\<open>create_with_tree\<close>: the template, then every area, then every scope, every question
  and every option, each stage pairing the payload dict with the key of the row made for
  it (\<^verbatim>\<open>area_objects\<close>, \<^verbatim>\<open>scope_objects\<close>, \<^verbatim>\<open>question_objects\<close>).
\<close>

fun add_areas :: "uuid \<Rightarrow> int option \<Rightarrow> area_payload list \<Rightarrow> db
    \<Rightarrow> db \<times> (area_payload \<times> uuid) list" where
  "add_areas template_id created_by [] d = (d, [])"
| "add_areas template_id created_by (area_data # rest) d =
     (let (d', objs) = add_areas template_id created_by rest
            (add_area template_id (ap_name area_data) (ap_weightage area_data) created_by d)
      in (d', (area_data, next_id d) # objs))"

fun add_scopes :: "int option \<Rightarrow> (scope_payload \<times> uuid) list \<Rightarrow> db
    \<Rightarrow> db \<times> (scope_payload \<times> uuid) list" where
  "add_scopes created_by [] d = (d, [])"
| "add_scopes created_by ((scope_data, area_id) # rest) d =
     (let (d', objs) = add_scopes created_by rest
            (add_scope area_id (sp_name scope_data) created_by d)
      in (d', (scope_data, next_id d) # objs))"

fun add_questions :: "int option \<Rightarrow> (question_payload \<times> uuid) list \<Rightarrow> db
    \<Rightarrow> db \<times> (question_payload \<times> uuid) list" where
  "add_questions created_by [] d = (d, [])"
| "add_questions created_by ((q_data, scope_id) # rest) d =
     (let (d', objs) = add_questions created_by rest
            (add_question scope_id (qp_text q_data) (qp_percentage q_data)
               (qp_is_mandatory q_data) created_by d)
      in (d', (q_data, next_id d) # objs))"

fun add_options :: "int option \<Rightarrow> (option_payload \<times> uuid) list \<Rightarrow> db \<Rightarrow> db" where
  "add_options created_by [] d = d"
| "add_options created_by ((opt, question_id) # rest) d =
     add_options created_by rest (add_option question_id (op_label opt) (op_value opt) created_by d)"

text \<open>
  \<^verbatim>\<open>for parent_data, parent_obj in parent_objects: for child in parent_data[children]\<close>:
  the children in order, each with the key of its parent's new row.
\<close>

definition children_of :: "('p \<Rightarrow> 'c list) \<Rightarrow> ('p \<times> uuid) list \<Rightarrow> ('c \<times> uuid) list" where
  "children_of sel objs = concat (map (\<lambda>(parent_data, parent_id).
       map (\<lambda>child. (child, parent_id)) (sel parent_data)) objs)"

definition create_with_tree :: "db \<Rightarrow> string \<Rightarrow> area_payload list \<Rightarrow> int option \<Rightarrow> db \<times> uuid" where
  "create_with_tree d name areas_data created_by =
     (let new_template_id = next_id d;
          d1 = add_template name created_by d;
          (d2, area_objects) = add_areas new_template_id created_by areas_data d1;
          (d3, scope_objects) = add_scopes created_by (children_of ap_scopes area_objects) d2;
          (d4, question_objects) =
             add_questions created_by (children_of sp_questions scope_objects) d3;
          d5 = add_options created_by (children_of qp_options question_objects) d4
      in (d5, new_template_id))"

section \<open>Template tree service\<close>

subsection \<open>Detail responses\<close>

record option_detail =
  od_id :: uuid
  od_question_id :: uuid
  od_label :: string
  od_value :: int

record question_detail =
  qd_id :: uuid
  qd_scope_id :: uuid
  qd_text :: string
  qd_percentage :: int
  qd_is_mandatory :: bool
  qd_options :: "option_detail list"

record scope_detail =
  sd_id :: uuid
  sd_area_id :: uuid
  sd_name :: string
  sd_questions :: "question_detail list"
  sd_total_percentage :: int

record area_detail =
  ad_id :: uuid
  ad_template_id :: uuid
  ad_name :: string
  ad_weightage :: int
  ad_scopes :: "scope_detail list"

record template_detail =
  td_id :: uuid
  td_name :: string
  td_isactive :: bool
  td_areas :: "area_detail list"
  td_total_weightage :: int

definition compute_total_weightage :: "loaded_area list \<Rightarrow> int" where
  "compute_total_weightage loaded = sum_list (map (\<lambda>a. a_weightage (la_row a)) loaded)"

definition option_to_detail :: "option_row \<Rightarrow> option_detail" where
  "option_to_detail o_row =
     \<lparr>od_id = o_id o_row, od_question_id = o_question_id o_row,
      od_label = o_label o_row, od_value = o_value o_row\<rparr>"

definition question_to_detail :: "loaded_question \<Rightarrow> question_detail" where
  "question_to_detail q =
     \<lparr>qd_id = q_id (lq_row q), qd_scope_id = q_scope_id (lq_row q),
      qd_text = q_text (lq_row q), qd_percentage = q_percentage (lq_row q),
      qd_is_mandatory = q_is_mandatory (lq_row q),
      qd_options = map option_to_detail (lq_options q)\<rparr>"

definition scope_detail :: "loaded_scope \<Rightarrow> scope_detail" where
  "scope_detail scope =
     (let loaded = ls_questions scope;
          total_pct = sum_list (map (\<lambda>q. q_percentage (lq_row q)) loaded)
      in \<lparr>sd_id = s_id (ls_row scope), sd_area_id = s_area_id (ls_row scope),
          sd_name = s_name (ls_row scope),
          sd_questions = map question_to_detail loaded,
          sd_total_percentage = total_pct\<rparr>)"

definition area_to_detail :: "loaded_area \<Rightarrow> area_detail" where
  "area_to_detail area =
     \<lparr>ad_id = a_id (la_row area), ad_template_id = a_template_id (la_row area),
      ad_name = a_name (la_row area), ad_weightage = a_weightage (la_row area),
      ad_scopes = map scope_detail (la_scopes area)\<rparr>"

definition template_to_detail_response :: "loaded_template \<Rightarrow> template_detail" where
  "template_to_detail_response template =
     \<lparr>td_id = t_id (lt_row template), td_name = t_name (lt_row template),
      td_isactive = t_isactive (lt_row template),
      td_areas = map area_to_detail (lt_areas template),
      td_total_weightage = compute_total_weightage (lt_areas template)\<rparr>"

text \<open>
  \<^verbatim>\<open>detail = await self.repo.get_by_id_with_details(id); return
  _template_to_detail_response(detail)\<close>, the tail of every write operation: on \<^verbatim>\<open>None\<close>
  the attribute read \<^verbatim>\<open>template.id\<close> raises.
\<close>

definition reload_detail :: "db \<Rightarrow> uuid \<Rightarrow> error + template_detail" where
  "reload_detail d template_id =
     (case get_by_id_with_details d template_id of
        None \<Rightarrow> Inl AttributeError
      | Some detail \<Rightarrow> Inr (template_to_detail_response detail))"

subsection \<open>Operations\<close>

text \<open>
  Every operation takes the committed state and returns the state that is committed
  when it ends, with its result. An exception leaves before \<^verbatim>\<open>commit\<close>, so the state
  comes back as it was.
\<close>

definition not_found :: "string \<Rightarrow> error" where
  "not_found detail = HTTPException 404 detail"

definition name_conflict :: "string \<Rightarrow> error" where
  "name_conflict name =
     HTTPException 409 (''Template with name '' @ quoted name @ '' already exists'')"

definition get_template_detail :: "db \<Rightarrow> uuid \<Rightarrow> error + template_detail" where
  "get_template_detail d template_id =
     (case get_by_id_with_details d template_id of
        None \<Rightarrow> Inl (not_found ''Template not found'')
      | Some template \<Rightarrow> Inr (template_to_detail_response template))"

definition create_template :: "db \<Rightarrow> template_payload \<Rightarrow> int option
    \<Rightarrow> db \<times> (error + template_detail)" where
  "create_template d payload user_id =
     (case get_by_name d (tp_name payload) of
        Inl e \<Rightarrow> (d, Inl e)
      | Inr (Some existing) \<Rightarrow> (d, Inl (name_conflict (tp_name payload)))
      | Inr None \<Rightarrow>
         (case validate_all_constraints (tp_areas payload) of
            Inl e \<Rightarrow> (d, Inl e)
          | Inr _ \<Rightarrow>
             (let (d', template_id) =
                    create_with_tree d (tp_name payload) (tp_areas payload) user_id
              in (d', reload_detail d' template_id))))"

definition clone_template :: "db \<Rightarrow> uuid \<Rightarrow> template_payload \<Rightarrow> int option
    \<Rightarrow> db \<times> (error + template_detail)" where
  "clone_template d template_id payload user_id =
     (case get_by_id d template_id of
        None \<Rightarrow> (d, Inl (not_found ''Source template not found''))
      | Some source \<Rightarrow>
     (case get_by_name d (tp_name payload) of
        Inl e \<Rightarrow> (d, Inl e)
      | Inr (Some existing) \<Rightarrow> (d, Inl (name_conflict (tp_name payload)))
      | Inr None \<Rightarrow>
         (case validate_all_constraints (tp_areas payload) of
            Inl e \<Rightarrow> (d, Inl e)
          | Inr _ \<Rightarrow>
             (let (d', new_template_id) =
                    create_with_tree d (tp_name payload) (tp_areas payload) user_id
              in (d', reload_detail d' new_template_id)))))"





definition delete_template :: "db \<Rightarrow> uuid \<Rightarrow> int option \<Rightarrow> db \<times> (error + unit)" where
  "delete_template d template_id user_id =
     (case get_by_id d template_id of
        None \<Rightarrow> (d, Inl (not_found ''Template not found''))
      | Some template \<Rightarrow> (soft_delete_template (t_id template) user_id d, Inr ()))"






subsection \<open>Update by identity\<close>

text \<open>
  \<^verbatim>\<open>existing = {x.id: x for x in loaded}\<close> and the test
  \<^verbatim>\<open>payload.id and payload.id in existing\<close> followed by \<^verbatim>\<open>existing[payload.id]\<close>: the
  loaded object with that key, when the payload carries a key and the dict has it. A UUID
  is always truthy, so \<^verbatim>\<open>payload.id\<close> tests for \<^verbatim>\<open>None\<close> only. Keys are primary keys, so
  the dict holds every loaded object.
\<close>

definition existing_get :: "('a \<Rightarrow> uuid) \<Rightarrow> 'a list \<Rightarrow> uuid option \<Rightarrow> 'a option" where
  "existing_get key existing payload_id =
     (case payload_id of None \<Rightarrow> None | Some i \<Rightarrow> find (\<lambda>x. key x = i) existing)"

text \<open>\<^verbatim>\<open>{x.id for x in items if x.id}\<close>\<close>

definition payload_ids :: "('a \<Rightarrow> uuid option) \<Rightarrow> 'a list \<Rightarrow> uuid set" where
  "payload_ids sel items = set (List.map_filter sel items)"

text \<open>The assignments of the four \<^verbatim>\<open>UPDATE existing\<close> branches.\<close>

definition set_template_name :: "uuid \<Rightarrow> string \<Rightarrow> int option \<Rightarrow> db \<Rightarrow> db" where
  "set_template_name i name user_id d =
     d\<lparr>audit_templates := map (\<lambda>r. if t_id r = i
          then r\<lparr>t_name := name, t_updated_by := stamp user_id (t_updated_by r)\<rparr>
          else r) (audit_templates d)\<rparr>"

definition set_area :: "uuid \<Rightarrow> string \<Rightarrow> int \<Rightarrow> int option \<Rightarrow> db \<Rightarrow> db" where
  "set_area i name weightage user_id d =
     d\<lparr>audit_areas := map (\<lambda>r. if a_id r = i
          then r\<lparr>a_name := name, a_weightage := weightage,
                 a_updated_by := stamp user_id (a_updated_by r)\<rparr>
          else r) (audit_areas d)\<rparr>"

definition set_scope :: "uuid \<Rightarrow> string \<Rightarrow> int option \<Rightarrow> db \<Rightarrow> db" where
  "set_scope i name user_id d =
     d\<lparr>audit_scopes := map (\<lambda>r. if s_id r = i
          then r\<lparr>s_name := name, s_updated_by := stamp user_id (s_updated_by r)\<rparr>
          else r) (audit_scopes d)\<rparr>"

definition set_question :: "uuid \<Rightarrow> string \<Rightarrow> int \<Rightarrow> bool \<Rightarrow> int option \<Rightarrow> db \<Rightarrow> db" where
  "set_question i text percentage is_mandatory user_id d =
     d\<lparr>audit_questions := map (\<lambda>r. if q_id r = i
          then r\<lparr>q_text := text, q_percentage := percentage, q_is_mandatory := is_mandatory,
                 q_updated_by := stamp user_id (q_updated_by r)\<rparr>
          else r) (audit_questions d)\<rparr>"

definition set_option :: "uuid \<Rightarrow> string \<Rightarrow> int \<Rightarrow> int option \<Rightarrow> db \<Rightarrow> db" where
  "set_option i label val user_id d =
     d\<lparr>audit_question_options := map (\<lambda>r. if o_id r = i
          then r\<lparr>o_label := label, o_value := val,
                 o_updated_by := stamp user_id (o_updated_by r)\<rparr>
          else r) (audit_question_options d)\<rparr>"

text \<open>
  The cascades written out under \<^verbatim>\<open># Soft-delete ... not in payload\<close>: the object
  itself, then the loaded children below it, level by level. The statements under a removed
  area repeat those under a removed scope, which repeat those under a removed question.
\<close>

definition soft_delete_question_tree :: "int option \<Rightarrow> loaded_question \<Rightarrow> db \<Rightarrow> db" where
  "soft_delete_question_tree user_id q d =
     fold (\<lambda>opt. deactivate_option (o_id opt) user_id) (lq_options q)
       (deactivate_question (q_id (lq_row q)) user_id d)"

definition soft_delete_scope_tree :: "int option \<Rightarrow> loaded_scope \<Rightarrow> db \<Rightarrow> db" where
  "soft_delete_scope_tree user_id scope d =
     fold (soft_delete_question_tree user_id) (ls_questions scope)
       (deactivate_scope (s_id (ls_row scope)) user_id d)"

definition soft_delete_area_tree :: "int option \<Rightarrow> loaded_area \<Rightarrow> db \<Rightarrow> db" where
  "soft_delete_area_tree user_id area d =
     fold (soft_delete_scope_tree user_id) (la_scopes area)
       (deactivate_area (a_id (la_row area)) user_id d)"

text \<open>\<^verbatim>\<open>for o_payload in q_payload.options\<close>, one round.\<close>

definition merge_option :: "uuid \<Rightarrow> int option \<Rightarrow> option_row list \<Rightarrow> option_payload \<Rightarrow> db \<Rightarrow> db" where
  "merge_option question_id user_id existing_options o_payload d =
     (case existing_get o_id existing_options (op_id o_payload) of
        Some o_obj \<Rightarrow> set_option (o_id o_obj) (op_label o_payload) (op_value o_payload) user_id d
      | None \<Rightarrow> add_option question_id (op_label o_payload) (op_value o_payload) user_id d)"

text \<open>The options of one question: soft-delete the omitted ones, then merge the payload.\<close>

definition merge_options :: "uuid \<Rightarrow> int option \<Rightarrow> option_row list \<Rightarrow> option_payload list \<Rightarrow> db \<Rightarrow> db" where
  "merge_options question_id user_id existing_options o_payloads d =
     (let payload_o_ids = payload_ids op_id o_payloads;
          d1 = fold (\<lambda>o_obj d. if o_id o_obj \<notin> payload_o_ids
                        then deactivate_option (o_id o_obj) user_id d else d) existing_options d
      in fold (merge_option question_id user_id existing_options) o_payloads d1)"

text \<open>\<^verbatim>\<open>for q_payload in scope_payload.questions\<close>, one round.\<close>

definition merge_question :: "uuid \<Rightarrow> int option \<Rightarrow> loaded_question list \<Rightarrow> question_payload \<Rightarrow> db \<Rightarrow> db" where
  "merge_question scope_id user_id existing_questions q_payload d =
     (case existing_get (\<lambda>q. q_id (lq_row q)) existing_questions (qp_id q_payload) of
        Some q_obj \<Rightarrow>
          merge_options (q_id (lq_row q_obj)) user_id (lq_options q_obj) (qp_options q_payload)
            (set_question (q_id (lq_row q_obj)) (qp_text q_payload) (qp_percentage q_payload)
               (qp_is_mandatory q_payload) user_id d)
      | None \<Rightarrow>
          merge_options (next_id d) user_id [] (qp_options q_payload)
            (add_question scope_id (qp_text q_payload) (qp_percentage q_payload)
               (qp_is_mandatory q_payload) user_id d))"

definition merge_questions :: "uuid \<Rightarrow> int option \<Rightarrow> loaded_question list \<Rightarrow> question_payload list \<Rightarrow> db \<Rightarrow> db" where
  "merge_questions scope_id user_id existing_questions q_payloads d =
     (let payload_q_ids = payload_ids qp_id q_payloads;
          d1 = fold (\<lambda>q_obj d. if q_id (lq_row q_obj) \<notin> payload_q_ids
                        then soft_delete_question_tree user_id q_obj d else d)
                 existing_questions d
      in fold (merge_question scope_id user_id existing_questions) q_payloads d1)"

text \<open>\<^verbatim>\<open>for scope_payload in area_payload.scopes\<close>, one round.\<close>

definition merge_scope :: "uuid \<Rightarrow> int option \<Rightarrow> loaded_scope list \<Rightarrow> scope_payload \<Rightarrow> db \<Rightarrow> db" where
  "merge_scope area_id user_id existing_scopes scope_payload d =
     (case existing_get (\<lambda>s. s_id (ls_row s)) existing_scopes (sp_id scope_payload) of
        Some scope_obj \<Rightarrow>
          merge_questions (s_id (ls_row scope_obj)) user_id (ls_questions scope_obj)
            (sp_questions scope_payload)
            (set_scope (s_id (ls_row scope_obj)) (sp_name scope_payload) user_id d)
      | None \<Rightarrow>
          merge_questions (next_id d) user_id [] (sp_questions scope_payload)
            (add_scope area_id (sp_name scope_payload) user_id d))"

definition merge_scopes :: "uuid \<Rightarrow> int option \<Rightarrow> loaded_scope list \<Rightarrow> scope_payload list \<Rightarrow> db \<Rightarrow> db" where
  "merge_scopes area_id user_id existing_scopes scope_payloads d =
     (let payload_scope_ids = payload_ids sp_id scope_payloads;
          d1 = fold (\<lambda>scope_obj d. if s_id (ls_row scope_obj) \<notin> payload_scope_ids
                        then soft_delete_scope_tree user_id scope_obj d else d)
                 existing_scopes d
      in fold (merge_scope area_id user_id existing_scopes) scope_payloads d1)"

text \<open>\<^verbatim>\<open>for area_payload in payload.areas\<close>, one round.\<close>

definition merge_area :: "uuid \<Rightarrow> int option \<Rightarrow> loaded_area list \<Rightarrow> area_payload \<Rightarrow> db \<Rightarrow> db" where
  "merge_area template_id user_id existing_areas area_payload d =
     (case existing_get (\<lambda>a. a_id (la_row a)) existing_areas (ap_id area_payload) of
        Some area_obj \<Rightarrow>
          merge_scopes (a_id (la_row area_obj)) user_id (la_scopes area_obj)
            (ap_scopes area_payload)
            (set_area (a_id (la_row area_obj)) (ap_name area_payload)
               (ap_weightage area_payload) user_id d)
      | None \<Rightarrow>
          merge_scopes (next_id d) user_id [] (ap_scopes area_payload)
            (add_area template_id (ap_name area_payload) (ap_weightage area_payload) user_id d))"

definition merge_areas :: "uuid \<Rightarrow> int option \<Rightarrow> loaded_area list \<Rightarrow> area_payload list \<Rightarrow> db \<Rightarrow> db" where
  "merge_areas template_id user_id existing_areas area_payloads d =
     (let payload_area_ids = payload_ids ap_id area_payloads;
          d1 = fold (\<lambda>area_obj d. if a_id (la_row area_obj) \<notin> payload_area_ids
                        then soft_delete_area_tree user_id area_obj d else d)
                 existing_areas d
      in fold (merge_area template_id user_id existing_areas) area_payloads d1)"

definition update_template :: "db \<Rightarrow> uuid \<Rightarrow> template_payload \<Rightarrow> int option
    \<Rightarrow> db \<times> (error + template_detail)" where
  "update_template d template_id payload user_id =
     (case get_by_id_with_details d template_id of
        None \<Rightarrow> (d, Inl (not_found ''Template not found''))
      | Some template \<Rightarrow>
     (case (if tp_name payload \<noteq> t_name (lt_row template)
            then (case get_by_name d (tp_name payload) of
                    Inl e \<Rightarrow> Inl e
                  | Inr (Some existing) \<Rightarrow> Inl (name_conflict (tp_name payload))
                  | Inr None \<Rightarrow> Inr ())
            else Inr ()) of
        Inl e \<Rightarrow> (d, Inl e)
      | Inr _ \<Rightarrow>
     (case validate_all_constraints (tp_areas payload) of
        Inl e \<Rightarrow> (d, Inl e)
      | Inr _ \<Rightarrow>
         (let d1 = set_template_name template_id (tp_name payload) user_id d;
              d2 = merge_areas template_id user_id (lt_areas template) (tp_areas payload) d1
          in (d2, reload_detail d2 template_id)))))"

section \<open>Vocabulary of the properties\<close>

text \<open>
  The percentage total as the specification words it: the sum of \<^verbatim>\<open>percentage\<close> over all
  questions in all scopes in all areas of the payload.
\<close>

definition payload_percentage_total :: "area_payload list \<Rightarrow> int" where
  "payload_percentage_total areas_data =
     sum_list (map qp_percentage (concat (map sp_questions (concat (map ap_scopes areas_data)))))"

text \<open>The validators in the order the specification lists them.\<close>

definition validation_order :: "(area_payload list \<Rightarrow> error + unit) list" where
  "validation_order =
     [validate_empty_question_scopes_areas, validate_area_names, validate_scope_names,
      validate_question_names, validate_option_labels, validate_option_values,
      validate_scope_percentages]"

text \<open>
  An operation reaches its validation block when the lookups before it raise nothing:
  the name is free (or, on update, kept), and the template addressed is found.
\<close>

definition create_reaches_validation :: "db \<Rightarrow> template_payload \<Rightarrow> bool" where
  "create_reaches_validation d payload = (get_by_name d (tp_name payload) = Inr None)"

definition clone_reaches_validation :: "db \<Rightarrow> uuid \<Rightarrow> template_payload \<Rightarrow> bool" where
  "clone_reaches_validation d template_id payload =
     (get_by_id d template_id \<noteq> None \<and> get_by_name d (tp_name payload) = Inr None)"

definition update_reaches_validation :: "db \<Rightarrow> uuid \<Rightarrow> template_payload \<Rightarrow> bool" where
  "update_reaches_validation d template_id payload =
     (case get_by_id_with_details d template_id of
        None \<Rightarrow> False
      | Some template \<Rightarrow>
          tp_name payload = t_name (lt_row template)
          \<or> get_by_name d (tp_name payload) = Inr None)"

text \<open>
  Keys are drawn fresh: every primary key and every foreign key stored in the tables is
  one the counter has already passed.
\<close>

definition keys_below :: "db \<Rightarrow> bool" where
  "keys_below d =
     ((\<forall>r \<in> set (audit_templates d). t_id r < next_id d)
    \<and> (\<forall>r \<in> set (audit_areas d). a_id r < next_id d \<and> a_template_id r < next_id d)
    \<and> (\<forall>r \<in> set (audit_scopes d). s_id r < next_id d \<and> s_area_id r < next_id d)
    \<and> (\<forall>r \<in> set (audit_questions d). q_id r < next_id d \<and> q_scope_id r < next_id d)
    \<and> (\<forall>r \<in> set (audit_question_options d).
          o_id r < next_id d \<and> o_question_id r < next_id d))"


subsection \<open>Nodes of the tree\<close>

text \<open>
  A node of the four-level tree, named by its level and key. A node is active when its
  table has a row with that key and \<^verbatim>\<open>isactive\<close> set.
\<close>

datatype node = AreaNode uuid | ScopeNode uuid | QuestionNode uuid | OptionNode uuid

fun node_key :: "node \<Rightarrow> uuid" where
  "node_key (AreaNode i) = i"
| "node_key (ScopeNode i) = i"
| "node_key (QuestionNode i) = i"
| "node_key (OptionNode i) = i"

fun node_active :: "db \<Rightarrow> node \<Rightarrow> bool" where
  "node_active d (AreaNode i) = (\<exists>r \<in> set (audit_areas d). a_id r = i \<and> a_isactive r)"
| "node_active d (ScopeNode i) = (\<exists>r \<in> set (audit_scopes d). s_id r = i \<and> s_isactive r)"
| "node_active d (QuestionNode i) = (\<exists>r \<in> set (audit_questions d). q_id r = i \<and> q_isactive r)"
| "node_active d (OptionNode i) =
     (\<exists>r \<in> set (audit_question_options d). o_id r = i \<and> o_isactive r)"

text \<open>
  A loaded node with everything loaded beneath it. The load keeps active children only,
  level by level, so these are the descendants that are active along with every node
  between them and the top.
\<close>

definition question_subtree :: "loaded_question \<Rightarrow> node list" where
  "question_subtree q =
     QuestionNode (q_id (lq_row q)) # map (\<lambda>r. OptionNode (o_id r)) (lq_options q)"

definition scope_subtree :: "loaded_scope \<Rightarrow> node list" where
  "scope_subtree s = ScopeNode (s_id (ls_row s)) # concat (map question_subtree (ls_questions s))"

definition area_subtree :: "loaded_area \<Rightarrow> node list" where
  "area_subtree a = AreaNode (a_id (la_row a)) # concat (map scope_subtree (la_scopes a))"









text \<open>
  Between two states nothing is revived: the counter does not go back, and a node whose
  key was drawn before the first state is active in the second only if it was in the
  first.
\<close>

definition no_revival :: "db \<Rightarrow> db \<Rightarrow> bool" where
  "no_revival d d' =
     (next_id d \<le> next_id d'
      \<and> (\<forall>n. node_key n < next_id d \<longrightarrow> node_active d' n \<longrightarrow> node_active d n))"

text \<open>
  A table grows when its old rows are all still there, unchanged and in place, with new
  rows after them at most. A write only appends when the four tables of the tree grow.
\<close>

definition grows :: "'a list \<Rightarrow> 'a list \<Rightarrow> bool" where
  "grows xs ys = (take (length xs) ys = xs)"

definition only_appends :: "db \<Rightarrow> db \<Rightarrow> bool" where
  "only_appends d d' =
     (grows (audit_areas d) (audit_areas d') \<and> grows (audit_scopes d) (audit_scopes d')
      \<and> grows (audit_questions d) (audit_questions d')
      \<and> grows (audit_question_options d) (audit_question_options d'))"

subsection \<open>What an update is to have done with each payload item\<close>




























text \<open>
  A write keeps the rows outside a set of nodes when every row of the old state that is
  not the row of one of those nodes is a row of the new state, and the counter does not
  go back. A write keeps rows in place when, in each table, the old rows are followed by
  the new ones and have kept their keys.
\<close>

definition rows_kept :: "node set \<Rightarrow> db \<Rightarrow> db \<Rightarrow> bool" where
  "rows_kept W d d' =
     (next_id d \<le> next_id d'
      \<and> (\<forall>r \<in> set (audit_areas d). AreaNode (a_id r) \<notin> W \<longrightarrow> r \<in> set (audit_areas d'))
      \<and> (\<forall>r \<in> set (audit_scopes d). ScopeNode (s_id r) \<notin> W \<longrightarrow> r \<in> set (audit_scopes d'))
      \<and> (\<forall>r \<in> set (audit_questions d).
            QuestionNode (q_id r) \<notin> W \<longrightarrow> r \<in> set (audit_questions d'))
      \<and> (\<forall>r \<in> set (audit_question_options d).
            OptionNode (o_id r) \<notin> W \<longrightarrow> r \<in> set (audit_question_options d')))"




definition area_touched :: "loaded_area list \<Rightarrow> area_payload \<Rightarrow> node set" where
  "area_touched ex item =
     (case existing_get (\<lambda>a. a_id (la_row a)) ex (ap_id item) of
        Some x \<Rightarrow> set (area_subtree x) | None \<Rightarrow> {})"

definition keys_in_place :: "db \<Rightarrow> db \<Rightarrow> bool" where
  "keys_in_place d d' =
     (map a_id (take (length (audit_areas d)) (audit_areas d')) = map a_id (audit_areas d)
      \<and> map s_id (take (length (audit_scopes d)) (audit_scopes d')) = map s_id (audit_scopes d)
      \<and> map q_id (take (length (audit_questions d)) (audit_questions d'))
          = map q_id (audit_questions d)
      \<and> map o_id (take (length (audit_question_options d)) (audit_question_options d'))
          = map o_id (audit_question_options d))"


subsection \<open>Concrete inputs\<close>

definition empty_db :: db where
  "empty_db = \<lparr>audit_templates = [], audit_areas = [], audit_scopes = [],
                audit_questions = [], audit_question_options = [], next_id = 0\<rparr>"

definition ex_option :: "string \<Rightarrow> int \<Rightarrow> option_payload" where
  "ex_option label val = \<lparr>op_id = None, op_label = label, op_value = val\<rparr>"

definition ex_question :: "int \<Rightarrow> question_payload" where
  "ex_question pct =
     \<lparr>qp_id = None, qp_text = ''Q'', qp_percentage = pct, qp_is_mandatory = True,
      qp_options = [ex_option ''Yes'' 1, ex_option ''No'' 0]\<rparr>"

definition ex_area :: "string \<Rightarrow> int \<Rightarrow> area_payload" where
  "ex_area name pct =
     \<lparr>ap_id = None, ap_name = name, ap_weightage = 100,
      ap_scopes = [\<lparr>sp_id = None, sp_name = ''S'', sp_questions = [ex_question pct]\<rparr>]\<rparr>"

text \<open>Two faults at once: a duplicate area name and a total of 90.\<close>

definition ex_two_faults :: template_payload where
  "ex_two_faults =
     \<lparr>tp_name = ''T'', tp_areas = [ex_area ''Quality'' 50, ex_area ''quality '' 40]\<rparr>"

text \<open>The payload of the specification's round trip, and the same with a total of 90.\<close>

definition ex_round_trip :: template_payload where
  "ex_round_trip = \<lparr>tp_name = ''T'', tp_areas = [ex_area ''A'' 100]\<rparr>"

definition ex_total_90 :: template_payload where
  "ex_total_90 = \<lparr>tp_name = ''T'', tp_areas = [ex_area ''A'' 90]\<rparr>"

definition ex_no_areas :: template_payload where
  "ex_no_areas = \<lparr>tp_name = ''T'', tp_areas = []\<rparr>"

definition ex_no_areas_copy :: template_payload where
  "ex_no_areas_copy = \<lparr>tp_name = ''Copy'', tp_areas = []\<rparr>"

text \<open>The state after the round-trip payload is created on the empty state by user 7.\<close>

definition ex_tree_db :: db where
  "ex_tree_db =
     \<lparr>audit_templates =
        [\<lparr>t_id = 0, t_name = ''T'', t_isactive = True,
          t_created_by = Some 7, t_updated_by = Some 7\<rparr>],
      audit_areas =
        [\<lparr>a_id = 1, a_template_id = 0, a_name = ''A'', a_weightage = 100, a_isactive = True,
          a_created_by = Some 7, a_updated_by = Some 7\<rparr>],
      audit_scopes =
        [\<lparr>s_id = 2, s_area_id = 1, s_name = ''S'', s_isactive = True,
          s_created_by = Some 7, s_updated_by = Some 7\<rparr>],
      audit_questions =
        [\<lparr>q_id = 3, q_scope_id = 2, q_text = ''Q'', q_percentage = 100,
          q_is_mandatory = True, q_isactive = True,
          q_created_by = Some 7, q_updated_by = Some 7\<rparr>],
      audit_question_options =
        [\<lparr>o_id = 4, o_question_id = 3, o_label = ''Yes'', o_value = 1, o_isactive = True,
          o_created_by = Some 7, o_updated_by = Some 7\<rparr>,
         \<lparr>o_id = 5, o_question_id = 3, o_label = ''No'', o_value = 0, o_isactive = True,
          o_created_by = Some 7, o_updated_by = Some 7\<rparr>],
      next_id = 6\<rparr>"





section \<open>What each write leaves alone\<close>

text \<open>
  The merge of one level writes that level's table and the tables below it, and nothing
  above; the template table is written by the rename alone.
\<close>

lemma fold_keeps: "(\<And>x d. proj (f x d) = proj d) \<Longrightarrow> proj (fold f xs d) = proj d"
  by (induction xs arbitrary: d) simp_all

lemmas fold_keeps_table =
  fold_keeps [where proj = audit_templates] fold_keeps [where proj = audit_areas]
  fold_keeps [where proj = audit_scopes] fold_keeps [where proj = audit_questions]
  fold_keeps [where proj = audit_question_options] fold_keeps [where proj = next_id]

lemmas row_write_defs =
  soft_delete_template_def soft_delete_area_def deactivate_area_def deactivate_scope_def
  deactivate_question_def deactivate_option_def
  set_template_name_def set_area_def set_scope_def set_question_def set_option_def
  add_template_def add_area_def add_scope_def add_question_def add_option_def

lemma soft_delete_question_tree_keeps:
  "audit_templates (soft_delete_question_tree u q d) = audit_templates d"
  "audit_areas (soft_delete_question_tree u q d) = audit_areas d"
  "audit_scopes (soft_delete_question_tree u q d) = audit_scopes d"
  "next_id (soft_delete_question_tree u q d) = next_id d"
  by (simp_all add: soft_delete_question_tree_def fold_keeps_table row_write_defs)

lemma soft_delete_scope_tree_keeps:
  "audit_templates (soft_delete_scope_tree u s d) = audit_templates d"
  "audit_areas (soft_delete_scope_tree u s d) = audit_areas d"
  "next_id (soft_delete_scope_tree u s d) = next_id d"
  by (simp_all add: soft_delete_scope_tree_def fold_keeps_table soft_delete_question_tree_keeps
        row_write_defs)

lemma soft_delete_area_tree_keeps:
  "audit_templates (soft_delete_area_tree u a d) = audit_templates d"
  "next_id (soft_delete_area_tree u a d) = next_id d"
  by (simp_all add: soft_delete_area_tree_def fold_keeps_table soft_delete_scope_tree_keeps
        row_write_defs)

lemma merge_option_keeps:
  "audit_templates (merge_option qid u ex opl d) = audit_templates d"
  "audit_areas (merge_option qid u ex opl d) = audit_areas d"
  "audit_scopes (merge_option qid u ex opl d) = audit_scopes d"
  "audit_questions (merge_option qid u ex opl d) = audit_questions d"
  by (simp_all add: merge_option_def row_write_defs split: option.splits)

lemma merge_options_keeps:
  "audit_templates (merge_options qid u ex ops d) = audit_templates d"
  "audit_areas (merge_options qid u ex ops d) = audit_areas d"
  "audit_scopes (merge_options qid u ex ops d) = audit_scopes d"
  "audit_questions (merge_options qid u ex ops d) = audit_questions d"
  by (simp_all add: merge_options_def Let_def fold_keeps_table merge_option_keeps row_write_defs)

lemma merge_question_keeps:
  "audit_templates (merge_question sid u ex qp d) = audit_templates d"
  "audit_areas (merge_question sid u ex qp d) = audit_areas d"
  "audit_scopes (merge_question sid u ex qp d) = audit_scopes d"
  by (simp_all add: merge_question_def merge_options_keeps row_write_defs split: option.splits)

lemma merge_questions_keeps:
  "audit_templates (merge_questions sid u ex qps d) = audit_templates d"
  "audit_areas (merge_questions sid u ex qps d) = audit_areas d"
  "audit_scopes (merge_questions sid u ex qps d) = audit_scopes d"
  by (simp_all add: merge_questions_def Let_def fold_keeps_table merge_question_keeps
        soft_delete_question_tree_keeps)

lemma merge_scope_keeps:
  "audit_templates (merge_scope aid u ex sp d) = audit_templates d"
  "audit_areas (merge_scope aid u ex sp d) = audit_areas d"
  by (simp_all add: merge_scope_def merge_questions_keeps row_write_defs split: option.splits)

lemma merge_scopes_keeps:
  "audit_templates (merge_scopes aid u ex sps d) = audit_templates d"
  "audit_areas (merge_scopes aid u ex sps d) = audit_areas d"
  by (simp_all add: merge_scopes_def Let_def fold_keeps_table merge_scope_keeps
        soft_delete_scope_tree_keeps)

lemma merge_area_keeps:
  "audit_templates (merge_area tid u ex ap d) = audit_templates d"
  by (simp_all add: merge_area_def merge_scopes_keeps row_write_defs split: option.splits)

lemma merge_areas_keeps:
  "audit_templates (merge_areas tid u ex aps d) = audit_templates d"
  by (simp_all add: merge_areas_def Let_def fold_keeps_table merge_area_keeps
        soft_delete_area_tree_keeps)

lemma add_areas_keeps:
  "audit_templates (fst (add_areas tid u as d)) = audit_templates d"
  by (induction as arbitrary: d) (simp_all add: split_beta add_area_def)

lemma add_scopes_keeps:
  "audit_templates (fst (add_scopes u xs d)) = audit_templates d"
  by (induction u xs d rule: add_scopes.induct) (simp_all add: split_beta add_scope_def)

lemma add_questions_keeps:
  "audit_templates (fst (add_questions u xs d)) = audit_templates d"
  by (induction u xs d rule: add_questions.induct) (simp_all add: split_beta add_question_def)

lemma add_options_keeps:
  "audit_templates (add_options u xs d) = audit_templates d"
  by (induction u xs d rule: add_options.induct) (simp_all add: add_option_def)

lemma create_with_tree_templates:
  "audit_templates (fst (create_with_tree d name as u)) =
     audit_templates d @ [\<lparr>t_id = next_id d, t_name = name, t_isactive = True,
                           t_created_by = u, t_updated_by = u\<rparr>]"
  "snd (create_with_tree d name as u) = next_id d"
  by (simp_all add: create_with_tree_def Let_def split_beta add_areas_keeps add_scopes_keeps
        add_questions_keeps add_options_keeps add_template_def)

lemma find_append_last: "P x \<Longrightarrow> find P (xs @ [x]) \<noteq> None"
  by (induction xs) auto

lemma reload_after_create:
  "\<exists>resp. reload_detail (fst (create_with_tree d name as u)) (next_id d) = Inr resp"
  by (simp add: reload_detail_def get_by_id_with_details_def create_with_tree_templates
        find_append_last split: option.splits)

lemma find_map_same_key:
  "(\<And>r. key (f r) = key r) \<Longrightarrow> find (\<lambda>r. key r = i) (map f xs) = map_option f (find (\<lambda>r. key r = i) xs)"
  by (induction xs) auto

lemma reload_after_update:
  "get_by_id_with_details d tid = Some t \<Longrightarrow>
   \<exists>resp. reload_detail (merge_areas tid u ex aps (set_template_name tid n u d)) tid = Inr resp"
  by (auto simp: reload_detail_def get_by_id_with_details_def merge_areas_keeps
        set_template_name_def find_map_same_key split: option.splits)

section \<open>The validators\<close>

lemma status_code_unprocessable [simp]: "status_code (unprocessable m) = 422"
  by (simp add: unprocessable_def)

lemma for_each_error:
  "for_each f xs = Inl e \<Longrightarrow> \<exists>x \<in> set xs. f x = Inl e"
  by (induction xs) (auto split: sum.splits)

lemma seen_loop_error:
  "seen_loop key err seen xs = Inl e \<Longrightarrow> \<exists>x \<in> set xs. e = err x"
  by (induction xs arbitrary: seen) (auto split: if_splits)

lemma scope_fold_total:
  "fold (\<lambda>scope total. if sp_questions scope = [] then total
           else total + sum_list (map qp_percentage (sp_questions scope))) ss t
   = t + sum_list (map qp_percentage (concat (map sp_questions ss)))"
  by (induction ss arbitrary: t) auto

lemma area_fold_total:
  "fold (\<lambda>area total. fold (\<lambda>scope total. if sp_questions scope = [] then total
           else total + sum_list (map qp_percentage (sp_questions scope))) (ap_scopes area) total) as t
   = t + sum_list (map qp_percentage (concat (map sp_questions (concat (map ap_scopes as)))))"
  by (induction as arbitrary: t) (auto simp: scope_fold_total)

lemma validate_scope_percentages_total:
  "validate_scope_percentages areas_data =
     (if payload_percentage_total areas_data = 100 then Inr ()
      else Inl (unprocessable ''Total weightage of all questions should be exactly 100%''))"
  by (simp add: validate_scope_percentages_def area_fold_total payload_percentage_total_def)

lemma validate_empty_422: "validate_empty_question_scopes_areas xs = Inl e \<Longrightarrow> status_code e = 422"
  unfolding validate_empty_question_scopes_areas_def
  by (fastforce dest!: for_each_error split: if_splits)

lemma validate_area_names_422: "validate_area_names xs = Inl e \<Longrightarrow> status_code e = 422"
  unfolding validate_area_names_def by (fastforce dest!: seen_loop_error)

lemma validate_scope_names_422: "validate_scope_names xs = Inl e \<Longrightarrow> status_code e = 422"
  unfolding validate_scope_names_def by (fastforce dest!: for_each_error seen_loop_error)

lemma validate_question_names_422: "validate_question_names xs = Inl e \<Longrightarrow> status_code e = 422"
  unfolding validate_question_names_def by (fastforce dest!: for_each_error seen_loop_error)

lemma validate_option_labels_422: "validate_option_labels xs = Inl e \<Longrightarrow> status_code e = 422"
  unfolding validate_option_labels_def by (fastforce dest!: for_each_error seen_loop_error)

lemma validate_option_values_422: "validate_option_values xs = Inl e \<Longrightarrow> status_code e = 422"
  unfolding validate_option_values_def by (fastforce dest!: for_each_error seen_loop_error)

lemma validate_scope_percentages_422: "validate_scope_percentages xs = Inl e \<Longrightarrow> status_code e = 422"
  by (auto simp: validate_scope_percentages_total split: if_splits)

lemmas validator_422 = validate_empty_422 validate_area_names_422 validate_scope_names_422
  validate_question_names_422 validate_option_labels_422 validate_option_values_422
  validate_scope_percentages_422

lemma validate_all_422: "validate_all_constraints xs = Inl e \<Longrightarrow> status_code e = 422"
  unfolding validate_all_constraints_def
  by (auto split: sum.splits dest: validator_422)

lemma validate_all_needs_total:
  "validate_all_constraints xs = Inr () \<Longrightarrow> payload_percentage_total xs = 100"
  unfolding validate_all_constraints_def
  by (auto split: sum.splits if_splits simp: validate_scope_percentages_total)

lemma validate_all_rejects_total:
  "payload_percentage_total xs \<noteq> 100 \<Longrightarrow> \<exists>e. validate_all_constraints xs = Inl e \<and> status_code e = 422"
  using validate_all_needs_total [of xs] validate_all_422 [of xs]
  by (cases "validate_all_constraints xs") auto

lemma for_each_first_failure:
  "for_each f xs = Inl e \<longleftrightarrow>
     (\<exists>i < length xs. f (xs ! i) = Inl e \<and> (\<forall>j < i. f (xs ! j) = Inr ()))"
proof (induction xs)
  case Nil
  then show ?case by simp
next
  case (Cons x xs)
  show ?case
  proof (cases "f x")
    case (Inl e')
    have "(\<exists>i < length (x # xs). f ((x # xs) ! i) = Inl e \<and> (\<forall>j < i. f ((x # xs) ! j) = Inr ()))
        \<longleftrightarrow> e' = e" (is "?L \<longleftrightarrow> _")
    proof
      assume ?L
      then obtain i where i: "f ((x # xs) ! i) = Inl e" "\<forall>j < i. f ((x # xs) ! j) = Inr ()"
        by blast
      show "e' = e"
      proof (cases i)
        case 0
        with i(1) Inl show ?thesis by simp
      next
        case (Suc k)
        then have "f ((x # xs) ! 0) = Inr ()" using i(2) by blast
        with Inl show ?thesis by simp
      qed
    next
      assume "e' = e"
      with Inl show ?L by (intro exI [of _ 0]) simp
    qed
    with Inl show ?thesis by simp
  next
    case (Inr u)
    have "(\<exists>i < length (x # xs). f ((x # xs) ! i) = Inl e \<and> (\<forall>j < i. f ((x # xs) ! j) = Inr ()))
        \<longleftrightarrow> (\<exists>i < length xs. f (xs ! i) = Inl e \<and> (\<forall>j < i. f (xs ! j) = Inr ()))"
      (is "?L \<longleftrightarrow> ?R")
    proof
      assume ?L
      then obtain i where i: "i < length (x # xs)" "f ((x # xs) ! i) = Inl e"
        "\<forall>j < i. f ((x # xs) ! j) = Inr ()" by blast
      with Inr obtain k where k: "i = Suc k" by (cases i) auto
      have "\<forall>j < k. f (xs ! j) = Inr ()"
      proof (intro allI impI)
        fix j assume "j < k"
        then have "Suc j < i" using k by simp
        with i(3) have "f ((x # xs) ! Suc j) = Inr ()" by blast
        then show "f (xs ! j) = Inr ()" by simp
      qed
      with i k show ?R by auto
    next
      assume ?R
      then obtain k where k: "k < length xs" "f (xs ! k) = Inl e"
        "\<forall>j < k. f (xs ! j) = Inr ()" by blast
      have "\<forall>j < Suc k. f ((x # xs) ! j) = Inr ()"
      proof (intro allI impI)
        fix j assume "j < Suc k"
        then show "f ((x # xs) ! j) = Inr ()" using Inr k(3) by (cases j) auto
      qed
      with k show ?L by (intro exI [of _ "Suc k"]) simp
    qed
    with Inr Cons.IH show ?thesis by simp
  qed
qed

lemma validate_all_first_failure:
  "validate_all_constraints xs = Inl e \<longleftrightarrow>
     (\<exists>i < length validation_order. (validation_order ! i) xs = Inl e
        \<and> (\<forall>j < i. (validation_order ! j) xs = Inr ()))"
proof -
  have "validate_all_constraints xs = for_each (\<lambda>v. v xs) validation_order"
    by (simp add: validate_all_constraints_def validation_order_def split: sum.splits)
  then show ?thesis by (simp add: for_each_first_failure)
qed


lemma create_template_rejected:
  "create_reaches_validation d p \<Longrightarrow> validate_all_constraints (tp_areas p) = Inl e
   \<Longrightarrow> create_template d p u = (d, Inl e)"
  by (simp add: create_template_def create_reaches_validation_def)

lemma clone_template_rejected:
  "clone_reaches_validation d i p \<Longrightarrow> validate_all_constraints (tp_areas p) = Inl e
   \<Longrightarrow> clone_template d i p u = (d, Inl e)"
  by (auto simp: clone_template_def clone_reaches_validation_def)

lemma update_template_rejected:
  "update_reaches_validation d i p \<Longrightarrow> validate_all_constraints (tp_areas p) = Inl e
   \<Longrightarrow> update_template d i p u = (d, Inl e)"
  by (auto simp: update_template_def update_reaches_validation_def split: option.splits)

lemma create_template_invalid:
  "validate_all_constraints (tp_areas p) = Inl e
   \<Longrightarrow> fst (create_template d p u) = d \<and> isl (snd (create_template d p u))"
  by (auto simp: create_template_def split: sum.splits option.splits)

lemma clone_template_invalid:
  "validate_all_constraints (tp_areas p) = Inl e
   \<Longrightarrow> fst (clone_template d i p u) = d \<and> isl (snd (clone_template d i p u))"
  by (auto simp: clone_template_def split: sum.splits option.splits)

lemma update_template_invalid:
  "validate_all_constraints (tp_areas p) = Inl e
   \<Longrightarrow> fst (update_template d i p u) = d \<and> isl (snd (update_template d i p u))"
  by (auto simp: update_template_def split: sum.splits option.splits)

lemma create_template_accepted:
  "create_reaches_validation d p \<Longrightarrow> validate_all_constraints (tp_areas p) = Inr ()
   \<Longrightarrow> \<exists>resp. snd (create_template d p u) = Inr resp"
  using reload_after_create [of d "tp_name p" "tp_areas p" u]
  by (auto simp: create_template_def create_reaches_validation_def split_beta
        create_with_tree_templates)

lemma clone_template_accepted:
  "clone_reaches_validation d i p \<Longrightarrow> validate_all_constraints (tp_areas p) = Inr ()
   \<Longrightarrow> \<exists>resp. snd (clone_template d i p u) = Inr resp"
  using reload_after_create [of d "tp_name p" "tp_areas p" u]
  by (auto simp: clone_template_def clone_reaches_validation_def split_beta
        create_with_tree_templates)

lemma update_template_accepted:
  "update_reaches_validation d i p \<Longrightarrow> validate_all_constraints (tp_areas p) = Inr ()
   \<Longrightarrow> \<exists>resp. snd (update_template d i p u) = Inr resp"
  using reload_after_update [of d i]
  by (auto simp: update_template_def update_reaches_validation_def Let_def
        split: option.splits)

lemma validate_all_accepts:
  assumes "\<forall>j < 6. (validation_order ! j) xs = Inr ()" and "payload_percentage_total xs = 100"
  shows "validate_all_constraints xs = Inr ()"
proof -
  have "(validation_order ! 0) xs = Inr ()" "(validation_order ! 1) xs = Inr ()"
    "(validation_order ! 2) xs = Inr ()" "(validation_order ! 3) xs = Inr ()"
    "(validation_order ! 4) xs = Inr ()" "(validation_order ! 5) xs = Inr ()"
    using assms(1) by simp_all
  then show ?thesis using assms(2)
    by (simp add: validation_order_def validate_all_constraints_def
          validate_scope_percentages_total)
qed

text \<open>
  C7. In create, update and clone the validators run in the fixed order non-empty, area
  names, scope names, question names, option labels, option values, percentage total, and
  the run stops at the first that fails: when stage \<open>i\<close> of that order fails with \<open>e\<close>
  and the stages before it pass, \<open>e\<close> is the error of the whole block and of each
  operation that reaches it, with the state as it was.
\<close>

theorem validators_fixed_order:
  assumes "i < length validation_order"
      and "(validation_order ! i) (tp_areas p) = Inl e"
      and "\<forall>j < i. (validation_order ! j) (tp_areas p) = Inr ()"
  shows "validation_order =
           [validate_empty_question_scopes_areas, validate_area_names, validate_scope_names,
            validate_question_names, validate_option_labels, validate_option_values,
            validate_scope_percentages]
       \<and> validate_all_constraints (tp_areas p) = Inl e
       \<and> (create_reaches_validation d p \<longrightarrow> create_template d p u = (d, Inl e))
       \<and> (update_reaches_validation d tid p \<longrightarrow> update_template d tid p u = (d, Inl e))
       \<and> (clone_reaches_validation d tid p \<longrightarrow> clone_template d tid p u = (d, Inl e))"
proof -
  have "validate_all_constraints (tp_areas p) = Inl e"
    using assms validate_all_first_failure by blast
  then show ?thesis
    by (simp add: validation_order_def create_template_rejected update_template_rejected
          clone_template_rejected)
qed

theorem validators_fixed_order_witness:
  "validate_scope_percentages (tp_areas ex_two_faults) \<noteq> Inr ()
   \<and> create_template empty_db ex_two_faults None
       = (empty_db, Inl (unprocessable (''Duplicate area name: '' @ quoted ''quality '')))"
proof -
  let ?e = "unprocessable (''Duplicate area name: '' @ quoted ''quality '')"
  have h1: "(1::nat) < length validation_order" by (simp add: validation_order_def)
  have h2: "(validation_order ! 1) (tp_areas ex_two_faults) = Inl ?e"
    unfolding validation_order_def by code_simp
  have h0: "(validation_order ! 0) (tp_areas ex_two_faults) = Inr ()"
    unfolding validation_order_def by code_simp
  have h3: "\<forall>j < (1::nat). (validation_order ! j) (tp_areas ex_two_faults) = Inr ()"
    using h0 by simp
  have r: "create_reaches_validation empty_db ex_two_faults" by code_simp
  have p: "validate_scope_percentages (tp_areas ex_two_faults) \<noteq> Inr ()" by code_simp
  from validators_fixed_order [OF h1 h2 h3, of empty_db None] r p show ?thesis by blast
qed

text \<open>
  C3. The percentage validator adds up \<^verbatim>\<open>percentage\<close> over every question of every scope
  of every area (a scope without questions adds nothing) and raises the 422 exactly when
  the sum is not 100. A create, update or clone whose payload sums to something else is
  rejected and leaves the state as it was, with status 422 once it reaches validation;
  when the six other validators pass, the operation that reaches validation is rejected
  if and only if the sum is not 100.
\<close>

theorem percentage_total_gate:
  "validate_scope_percentages (tp_areas p) =
     (if payload_percentage_total (tp_areas p) = 100 then Inr ()
      else Inl (HTTPException 422 ''Total weightage of all questions should be exactly 100%''))
   \<and> (payload_percentage_total (tp_areas p) \<noteq> 100 \<longrightarrow>
         fst (create_template d p u) = d \<and> isl (snd (create_template d p u))
       \<and> fst (update_template d tid p u) = d \<and> isl (snd (update_template d tid p u))
       \<and> fst (clone_template d tid p u) = d \<and> isl (snd (clone_template d tid p u))
       \<and> (create_reaches_validation d p \<longrightarrow>
            (\<exists>e. snd (create_template d p u) = Inl e \<and> status_code e = 422))
       \<and> (update_reaches_validation d tid p \<longrightarrow>
            (\<exists>e. snd (update_template d tid p u) = Inl e \<and> status_code e = 422))
       \<and> (clone_reaches_validation d tid p \<longrightarrow>
            (\<exists>e. snd (clone_template d tid p u) = Inl e \<and> status_code e = 422)))
   \<and> ((\<forall>j < 6. (validation_order ! j) (tp_areas p) = Inr ()) \<longrightarrow>
         (create_reaches_validation d p \<longrightarrow>
            (isl (snd (create_template d p u)) \<longleftrightarrow> payload_percentage_total (tp_areas p) \<noteq> 100))
       \<and> (update_reaches_validation d tid p \<longrightarrow>
            (isl (snd (update_template d tid p u)) \<longleftrightarrow> payload_percentage_total (tp_areas p) \<noteq> 100))
       \<and> (clone_reaches_validation d tid p \<longrightarrow>
            (isl (snd (clone_template d tid p u)) \<longleftrightarrow> payload_percentage_total (tp_areas p) \<noteq> 100)))"
proof (intro conjI impI)
  show "validate_scope_percentages (tp_areas p) =
     (if payload_percentage_total (tp_areas p) = 100 then Inr ()
      else Inl (HTTPException 422 ''Total weightage of all questions should be exactly 100%''))"
    by (simp add: validate_scope_percentages_total unprocessable_def)
next
  assume ne: "payload_percentage_total (tp_areas p) \<noteq> 100"
  then obtain e where e: "validate_all_constraints (tp_areas p) = Inl e" "status_code e = 422"
    using validate_all_rejects_total by blast
  show "fst (create_template d p u) = d" "isl (snd (create_template d p u))"
    using create_template_invalid [OF e(1)] by simp_all
  show "fst (update_template d tid p u) = d" "isl (snd (update_template d tid p u))"
    using update_template_invalid [OF e(1)] by simp_all
  show "fst (clone_template d tid p u) = d" "isl (snd (clone_template d tid p u))"
    using clone_template_invalid [OF e(1)] by simp_all
  { assume "create_reaches_validation d p"
    then show "\<exists>e. snd (create_template d p u) = Inl e \<and> status_code e = 422"
      using create_template_rejected e by fastforce }
  { assume "update_reaches_validation d tid p"
    then show "\<exists>e. snd (update_template d tid p u) = Inl e \<and> status_code e = 422"
      using update_template_rejected e by fastforce }
  { assume "clone_reaches_validation d tid p"
    then show "\<exists>e. snd (clone_template d tid p u) = Inl e \<and> status_code e = 422"
      using clone_template_rejected e by fastforce }
next
  assume six: "\<forall>j < 6. (validation_order ! j) (tp_areas p) = Inr ()"
  have ok: "payload_percentage_total (tp_areas p) = 100
            \<Longrightarrow> validate_all_constraints (tp_areas p) = Inr ()"
    using validate_all_accepts [OF six] .
  have bad: "payload_percentage_total (tp_areas p) \<noteq> 100
            \<Longrightarrow> \<exists>e. validate_all_constraints (tp_areas p) = Inl e"
    using validate_all_rejects_total by blast
  { assume r: "create_reaches_validation d p"
    show "isl (snd (create_template d p u)) \<longleftrightarrow> payload_percentage_total (tp_areas p) \<noteq> 100"
      using create_template_accepted [OF r, of u] create_template_invalid [of p _ d u] ok bad
      by (cases "payload_percentage_total (tp_areas p) = 100") auto }
  { assume r: "update_reaches_validation d tid p"
    show "isl (snd (update_template d tid p u)) \<longleftrightarrow> payload_percentage_total (tp_areas p) \<noteq> 100"
      using update_template_accepted [OF r, of u] update_template_invalid [of p _ d tid u] ok bad
      by (cases "payload_percentage_total (tp_areas p) = 100") auto }
  { assume r: "clone_reaches_validation d tid p"
    show "isl (snd (clone_template d tid p u)) \<longleftrightarrow> payload_percentage_total (tp_areas p) \<noteq> 100"
      using clone_template_accepted [OF r, of u] clone_template_invalid [of p _ d tid u] ok bad
      by (cases "payload_percentage_total (tp_areas p) = 100") auto }
qed

lemma below_six:
  assumes "P 0" "P 1" "P 2" "P 3" "P 4" "P (5::nat)"
  shows "\<forall>j < 6. P j"
proof (intro allI impI)
  fix j :: nat
  assume "j < 6"
  then consider "j = 0" | "j = 1" | "j = 2" | "j = 3" | "j = 4" | "j = 5" by linarith
  then show "P j" using assms by cases simp_all
qed

theorem percentage_total_gate_witness:
  "payload_percentage_total (tp_areas ex_total_90) = 90
   \<and> fst (create_template empty_db ex_total_90 None) = empty_db
   \<and> (\<exists>e. snd (create_template empty_db ex_total_90 None) = Inl e \<and> status_code e = 422)
   \<and> payload_percentage_total (tp_areas ex_round_trip) = 100
   \<and> \<not> isl (snd (create_template empty_db ex_round_trip None))"
proof -
  have t90: "payload_percentage_total (tp_areas ex_total_90) = 90" by code_simp
  have r90: "create_reaches_validation empty_db ex_total_90" by code_simp
  have t100: "payload_percentage_total (tp_areas ex_round_trip) = 100" by code_simp
  have r100: "create_reaches_validation empty_db ex_round_trip" by code_simp
  have six: "\<forall>j < 6. (validation_order ! j) (tp_areas ex_round_trip) = Inr ()"
    by (rule below_six; (unfold validation_order_def)?; code_simp)
  from percentage_total_gate [of ex_total_90 empty_db None 0] t90 r90
  have a: "fst (create_template empty_db ex_total_90 None) = empty_db
     \<and> (\<exists>e. snd (create_template empty_db ex_total_90 None) = Inl e \<and> status_code e = 422)"
    by simp
  from percentage_total_gate [of ex_round_trip empty_db None 0] t100 r100 six
  have b: "\<not> isl (snd (create_template empty_db ex_round_trip None))" by blast
  from a b t90 t100 show ?thesis by blast
qed

text \<open>
  C10. A create or clone request with no areas is rejected and writes nothing: the
  non-emptiness check passes over the empty list, the sum of percentages is 0, and the
  request that reaches validation gets the 422 of the percentage check.
\<close>

theorem empty_areas_rejected:
  assumes "tp_areas p = []"
  shows "validate_empty_question_scopes_areas (tp_areas p) = Inr ()
     \<and> payload_percentage_total (tp_areas p) = 0
     \<and> fst (create_template d p u) = d \<and> isl (snd (create_template d p u))
     \<and> fst (clone_template d tid p u) = d \<and> isl (snd (clone_template d tid p u))
     \<and> (create_reaches_validation d p \<longrightarrow> snd (create_template d p u) =
           Inl (HTTPException 422 ''Total weightage of all questions should be exactly 100%''))
     \<and> (clone_reaches_validation d tid p \<longrightarrow> snd (clone_template d tid p u) =
           Inl (HTTPException 422 ''Total weightage of all questions should be exactly 100%''))"
proof -
  let ?e = "HTTPException 422 ''Total weightage of all questions should be exactly 100%''"
  have v: "validate_all_constraints (tp_areas p) = Inl ?e"
    using assms
    by (simp add: validate_all_constraints_def validate_empty_question_scopes_areas_def
          validate_area_names_def validate_scope_names_def validate_question_names_def
          validate_option_labels_def validate_option_values_def validate_scope_percentages_def
          unprocessable_def)
  have "validate_empty_question_scopes_areas (tp_areas p) = Inr ()"
    using assms by (simp add: validate_empty_question_scopes_areas_def)
  moreover have "payload_percentage_total (tp_areas p) = 0"
    using assms by (simp add: payload_percentage_total_def)
  moreover note create_template_invalid [OF v, of d u] clone_template_invalid [OF v, of d tid u]
  moreover have "create_reaches_validation d p \<longrightarrow> snd (create_template d p u) = Inl ?e"
    using create_template_rejected [OF _ v, of d u] by simp
  moreover have "clone_reaches_validation d tid p \<longrightarrow> snd (clone_template d tid p u) = Inl ?e"
    using clone_template_rejected [OF _ v, of d tid u] by simp
  ultimately show ?thesis by blast
qed

theorem empty_areas_rejected_witness:
  "tp_areas ex_no_areas = []
   \<and> create_template empty_db ex_no_areas None =
       (empty_db, Inl (HTTPException 422 ''Total weightage of all questions should be exactly 100%''))
   \<and> clone_template ex_tree_db 0 ex_no_areas_copy None =
       (ex_tree_db, Inl (HTTPException 422 ''Total weightage of all questions should be exactly 100%''))"
proof -
  have h: "tp_areas ex_no_areas = []" by (simp add: ex_no_areas_def)
  have h': "tp_areas ex_no_areas_copy = []" by (simp add: ex_no_areas_copy_def)
  have r: "create_reaches_validation empty_db ex_no_areas" by code_simp
  have r': "clone_reaches_validation ex_tree_db 0 ex_no_areas_copy"
    by code_simp
  from empty_areas_rejected [OF h, of empty_db None 0] r
  have a: "create_template empty_db ex_no_areas None =
       (empty_db, Inl (HTTPException 422 ''Total weightage of all questions should be exactly 100%''))"
    by (metis prod.collapse)
  from empty_areas_rejected [OF h', of ex_tree_db None 0] r'
  have b: "clone_template ex_tree_db 0 ex_no_areas_copy None =
       (ex_tree_db, Inl (HTTPException 422 ''Total weightage of all questions should be exactly 100%''))"
    by (metis prod.collapse)
  from h a b show ?thesis by blast
qed

section \<open>Lookups and standalone deletes\<close>






text \<open>
  C5, at a failing input. Template 0 is soft-deleted; \<^verbatim>\<open>get_by_id\<close> no longer finds it,
  yet the detail read answers with its tree and the update goes through.
\<close>

theorem detail_of_soft_deleted_template:
  "snd (delete_template ex_tree_db 0 None) = Inr ()
   \<and> get_by_id (fst (delete_template ex_tree_db 0 None)) 0 = None
   \<and> map_sum status_code (\<lambda>resp. (td_id resp, td_isactive resp, map ad_id (td_areas resp)))
        (get_template_detail (fst (delete_template ex_tree_db 0 None)) 0)
       = Inr (0, False, [1])
   \<and> \<not> isl (snd (update_template (fst (delete_template ex_tree_db 0 None)) 0 ex_round_trip None))"
  by code_simp




section \<open>Reads, the round trip and the default template\<close>

lemma no_child_of_fresh_key:
  assumes "keys_below d" and "next_id d \<le> n"
  shows "find (\<lambda>t. t_id t = n) (audit_templates d) = None"
    and "filter (\<lambda>r. a_template_id r = n \<and> a_isactive r) (audit_areas d) = []"
    and "filter (\<lambda>r. s_area_id r = n \<and> s_isactive r) (audit_scopes d) = []"
    and "filter (\<lambda>r. q_scope_id r = n \<and> q_isactive r) (audit_questions d) = []"
    and "filter (\<lambda>r. o_question_id r = n \<and> o_isactive r) (audit_question_options d) = []"
  using assms by (auto simp: keys_below_def find_None_iff filter_empty_conv)

lemma find_append:
  "find P (xs @ ys) = (case find P xs of None \<Rightarrow> find P ys | Some x \<Rightarrow> Some x)"
  by (induction xs) auto




lemma detail_totals:
  assumes "get_template_detail d tid = Inr resp"
  shows "td_total_weightage resp =
           sum_list (map a_weightage
             (filter (\<lambda>r. a_template_id r = tid \<and> a_isactive r) (audit_areas d)))"
    and "\<forall>area \<in> set (td_areas resp). \<forall>scope \<in> set (ad_scopes area).
           sd_total_percentage scope =
             sum_list (map q_percentage
               (filter (\<lambda>r. q_scope_id r = sd_id scope \<and> q_isactive r) (audit_questions d)))"
  using assms
  by (auto simp: get_template_detail_def get_by_id_with_details_def template_to_detail_response_def
        compute_total_weightage_def load_areas_def area_to_detail_def load_scopes_def
        scope_detail_def load_questions_def Let_def comp_def split: option.splits)

lemma round_trip_valid: "validate_all_constraints (tp_areas ex_round_trip) = Inr ()"
  by code_simp

lemma round_trip_general:
  assumes "keys_below d" and "create_reaches_validation d ex_round_trip"
  shows "\<exists>d' resp. create_template d ex_round_trip u = (d', Inr resp)
          \<and> get_template_detail d' (td_id resp) = Inr resp
          \<and> td_total_weightage resp = 100
          \<and> map (\<lambda>a. map sd_total_percentage (ad_scopes a)) (td_areas resp) = [[100]]"
proof -
  have n: "get_by_name d ''T'' = Inr None"
    using assms(2) by (simp add: create_reaches_validation_def ex_round_trip_def)
  have v: "validate_all_constraints [ex_area ''A'' 100] = Inr ()"
    using round_trip_valid by (simp add: ex_round_trip_def)
  note fresh = no_child_of_fresh_key [OF assms(1)]
  show ?thesis
    using n v
    by (simp add: create_template_def ex_round_trip_def create_with_tree_def Let_def
        ex_area_def ex_question_def ex_option_def children_of_def row_write_defs
        reload_detail_def get_template_detail_def get_by_id_with_details_def
        template_to_detail_response_def compute_total_weightage_def load_areas_def
        area_to_detail_def load_scopes_def scope_detail_def load_questions_def
        load_options_def question_to_detail_def option_to_detail_def fresh find_append)
qed


text \<open>
  C9. The totals of a detail response are computed from the rows read:
  \<^verbatim>\<open>total_weightage\<close> is the sum of the weightages of the template's active areas, and a
  scope's \<^verbatim>\<open>total_percentage\<close> the sum of the percentages of its active questions. Creating
  the round-trip payload (one area of weightage 100, one scope, one question of
  percentage 100, two options) and reading the new template's detail gives
  \<^verbatim>\<open>total_weightage = 100\<close> and \<^verbatim>\<open>total_percentage = 100\<close> for its scope.
\<close>

theorem totals_derived_at_read:
  "(get_template_detail d tid = Inr resp \<longrightarrow>
       td_total_weightage resp =
         sum_list (map a_weightage
           (filter (\<lambda>r. a_template_id r = tid \<and> a_isactive r) (audit_areas d)))
     \<and> (\<forall>area \<in> set (td_areas resp). \<forall>scope \<in> set (ad_scopes area).
           sd_total_percentage scope =
             sum_list (map q_percentage
               (filter (\<lambda>r. q_scope_id r = sd_id scope \<and> q_isactive r) (audit_questions d)))))
   \<and> (keys_below d \<and> create_reaches_validation d ex_round_trip \<longrightarrow>
       (\<exists>d' created. create_template d ex_round_trip u = (d', Inr created)
          \<and> get_template_detail d' (td_id created) = Inr created
          \<and> td_total_weightage created = 100
          \<and> map (\<lambda>a. map sd_total_percentage (ad_scopes a)) (td_areas created) = [[100]]))"
  using detail_totals [of d tid resp] round_trip_general [of d u] by blast

theorem totals_derived_at_read_witness:
  "keys_below empty_db \<and> create_reaches_validation empty_db ex_round_trip
   \<and> (\<exists>d' created. create_template empty_db ex_round_trip (Some 7) = (d', Inr created)
          \<and> get_template_detail d' (td_id created) = Inr created
          \<and> td_total_weightage created = 100
          \<and> map (\<lambda>a. map sd_total_percentage (ad_scopes a)) (td_areas created) = [[100]])
   \<and> (\<exists>resp. get_template_detail ex_tree_db 0 = Inr resp
          \<and> td_total_weightage resp = sum_list (map a_weightage (audit_areas ex_tree_db)))"
proof -
  have k: "keys_below empty_db" by (simp add: keys_below_def empty_db_def)
  have r: "create_reaches_validation empty_db ex_round_trip" by code_simp
  have "\<not> isl (get_template_detail ex_tree_db 0)" by code_simp
  then obtain resp where g: "get_template_detail ex_tree_db 0 = Inr resp"
    by (cases "get_template_detail ex_tree_db 0") auto
  have f: "filter (\<lambda>r. a_template_id r = 0 \<and> a_isactive r) (audit_areas ex_tree_db)
           = audit_areas ex_tree_db"
    by (simp add: ex_tree_db_def)
  from totals_derived_at_read [of ex_tree_db 0 resp None] g f
  have a: "td_total_weightage resp = sum_list (map a_weightage (audit_areas ex_tree_db))"
    by simp
  from totals_derived_at_read [of empty_db 0 resp "Some 7"] k r g a show ?thesis by blast
qed



section \<open>The update revives nothing\<close>

lemma no_revival_refl [simp]: "no_revival d d"
  by (simp add: no_revival_def)

lemma no_revival_trans: "no_revival d d' \<Longrightarrow> no_revival d' d'' \<Longrightarrow> no_revival d d''"
  unfolding no_revival_def by (meson le_trans less_le_trans)


lemma no_revival_deactivate:
  "no_revival d (deactivate_area i u d)"
  "no_revival d (deactivate_scope i u d)"
  "no_revival d (deactivate_question i u d)"
  "no_revival d (deactivate_option i u d)"
  unfolding no_revival_def
  by (auto simp: row_write_defs elim!: node_active.elims; blast)+

lemma no_revival_set:
  "no_revival d (set_template_name i n u d)"
  "no_revival d (set_area i n w u d)"
  "no_revival d (set_scope i n u d)"
  "no_revival d (set_question i t pc m u d)"
  "no_revival d (set_option i l v u d)"
  unfolding no_revival_def
  by (auto simp: row_write_defs elim!: node_active.elims; blast)+

lemma no_revival_add:
  "no_revival d (add_area t n w u d)"
  "no_revival d (add_scope a n u d)"
  "no_revival d (add_question s tx pc m u d)"
  "no_revival d (add_option q l v u d)"
  unfolding no_revival_def
  by (auto simp: row_write_defs elim!: node_active.elims; blast)+

lemma no_revival_fold:
  "(\<And>x d. no_revival d (f x d)) \<Longrightarrow> no_revival d (fold f xs d)"
proof (induction xs arbitrary: d)
  case Nil
  then show ?case by simp
next
  case (Cons x xs)
  then show ?case using no_revival_trans by fastforce
qed

lemma no_revival_when: "no_revival d (f d) \<Longrightarrow> no_revival d (if c then f d else d)"
  by simp

lemmas no_revival_row = no_revival_deactivate no_revival_set no_revival_add

lemma no_revival_soft_delete_question_tree:
  "no_revival d (soft_delete_question_tree u q d)"
  unfolding soft_delete_question_tree_def
  by (rule no_revival_trans [OF no_revival_row(3)]) (rule no_revival_fold, rule no_revival_row)

lemma no_revival_soft_delete_scope_tree:
  "no_revival d (soft_delete_scope_tree u s d)"
  unfolding soft_delete_scope_tree_def
  by (rule no_revival_trans [OF no_revival_row(2)])
     (rule no_revival_fold, rule no_revival_soft_delete_question_tree)

lemma no_revival_soft_delete_area_tree:
  "no_revival d (soft_delete_area_tree u a d)"
  unfolding soft_delete_area_tree_def
  by (rule no_revival_trans [OF no_revival_row(1)])
     (rule no_revival_fold, rule no_revival_soft_delete_scope_tree)

lemma no_revival_merge_option: "no_revival d (merge_option qid u ex item d)"
  by (simp add: merge_option_def no_revival_row split: option.splits)

lemma no_revival_merge_options: "no_revival d (merge_options qid u ex items d)"
  unfolding merge_options_def Let_def
  by (rule no_revival_trans [OF no_revival_fold no_revival_fold])
     (simp_all add: no_revival_row no_revival_merge_option)

lemma no_revival_merge_question: "no_revival d (merge_question sid u ex item d)"
  unfolding merge_question_def
  by (auto split: option.splits
        intro!: no_revival_trans [OF _ no_revival_merge_options] no_revival_row)

lemma no_revival_merge_questions: "no_revival d (merge_questions sid u ex items d)"
  unfolding merge_questions_def Let_def
  by (rule no_revival_trans [OF no_revival_fold no_revival_fold])
     (simp_all add: no_revival_soft_delete_question_tree no_revival_merge_question)

lemma no_revival_merge_scope: "no_revival d (merge_scope aid u ex item d)"
  unfolding merge_scope_def
  by (auto split: option.splits
        intro!: no_revival_trans [OF _ no_revival_merge_questions] no_revival_row)

lemma no_revival_merge_scopes: "no_revival d (merge_scopes aid u ex items d)"
  unfolding merge_scopes_def Let_def
  by (rule no_revival_trans [OF no_revival_fold no_revival_fold])
     (simp_all add: no_revival_soft_delete_scope_tree no_revival_merge_scope)

lemma no_revival_merge_area: "no_revival d (merge_area tid u ex item d)"
  unfolding merge_area_def
  by (auto split: option.splits
        intro!: no_revival_trans [OF _ no_revival_merge_scopes] no_revival_row)

lemma no_revival_merge_areas: "no_revival d (merge_areas tid u ex items d)"
  unfolding merge_areas_def Let_def
  by (rule no_revival_trans [OF no_revival_fold no_revival_fold])
     (simp_all add: no_revival_soft_delete_area_tree no_revival_merge_area)



section \<open>The cascade under a removed node\<close>







section \<open>The merge removes what the payload omits\<close>





section \<open>Cascading soft delete on update\<close>

lemma existing_get_Some:
  "existing_get key ex pid = Some x \<Longrightarrow> x \<in> set ex \<and> pid = Some (key x)"
  by (auto simp: existing_get_def find_Some_iff split: option.splits)

















section \<open>Reconciliation by identity\<close>

lemma grows_iff: "grows xs ys \<longleftrightarrow> (\<exists>zs. ys = xs @ zs)"
  unfolding grows_def by (metis append_eq_conv_conj)

lemma grows_refl [simp]: "grows xs xs"
  by (simp add: grows_def)

lemma grows_append [simp]: "grows xs (xs @ zs)"
  by (simp add: grows_def)

lemma grows_trans: "grows xs ys \<Longrightarrow> grows ys zs \<Longrightarrow> grows xs zs"
  by (auto simp: grows_iff)

lemma only_appends_refl [simp]: "only_appends d d"
  by (simp add: only_appends_def)

lemma only_appends_trans: "only_appends d d' \<Longrightarrow> only_appends d' d'' \<Longrightarrow> only_appends d d''"
  unfolding only_appends_def by (blast intro: grows_trans)

lemma only_appends_add:
  "only_appends d (add_area t n w u d)"
  "only_appends d (add_scope a n u d)"
  "only_appends d (add_question s tx pc m u d)"
  "only_appends d (add_option q l v u d)"
  by (simp_all add: only_appends_def add_area_def add_scope_def add_question_def add_option_def)

lemma only_appends_fold:
  "(\<And>x d. only_appends d (f x d)) \<Longrightarrow> only_appends d (fold f xs d)"
proof (induction xs arbitrary: d)
  case Nil
  then show ?case by simp
next
  case (Cons x xs)
  then show ?case using only_appends_trans by fastforce
qed

lemma existing_get_Nil [simp]: "existing_get key [] pid = None"
  by (simp add: existing_get_def split: option.splits)

lemma merge_options_new: "only_appends d (merge_options qid u [] items d)"
  unfolding merge_options_def Let_def
  by (simp, rule only_appends_fold) (simp add: merge_option_def only_appends_add)

lemma merge_question_new: "only_appends d (merge_question sid u [] item d)"
  unfolding merge_question_def
  by (simp, rule only_appends_trans [OF only_appends_add(3) merge_options_new])

lemma merge_questions_new: "only_appends d (merge_questions sid u [] items d)"
  unfolding merge_questions_def Let_def
  by (simp, rule only_appends_fold) (rule merge_question_new)

lemma merge_scope_new: "only_appends d (merge_scope aid u [] item d)"
  unfolding merge_scope_def
  by (simp, rule only_appends_trans [OF only_appends_add(2) merge_questions_new])

lemma merge_scopes_new: "only_appends d (merge_scopes aid u [] items d)"
  unfolding merge_scopes_def Let_def
  by (simp, rule only_appends_fold) (rule merge_scope_new)

lemma existing_get_None:
  "existing_get key ex pid = None \<longleftrightarrow> (pid = None \<or> (\<exists>i. pid = Some i \<and> i \<notin> key ` set ex))"
  by (auto simp: existing_get_def find_None_iff split: option.splits)

lemma merge_option_by_identity:
  "(existing_get o_id ex (op_id item) = Some x \<longrightarrow>
      merge_option qid u ex item d = set_option (o_id x) (op_label item) (op_value item) u d
    \<and> audit_question_options (merge_option qid u ex item d) =
        map (\<lambda>r. if o_id r = o_id x
                  then r\<lparr>o_label := op_label item, o_value := op_value item,
                         o_updated_by := stamp u (o_updated_by r)\<rparr>
                  else r) (audit_question_options d))
   \<and> (existing_get o_id ex (op_id item) = None \<longrightarrow>
      audit_question_options (merge_option qid u ex item d) =
        audit_question_options d @
          [\<lparr>o_id = next_id d, o_question_id = qid, o_label = op_label item,
            o_value = op_value item, o_isactive = True, o_created_by = u, o_updated_by = u\<rparr>]
    \<and> only_appends d (merge_option qid u ex item d))"
  by (simp add: merge_option_def set_option_def add_option_def only_appends_def)

lemma merge_question_by_identity:
  "(existing_get (\<lambda>q. q_id (lq_row q)) ex (qp_id item) = Some x \<longrightarrow>
      merge_question sid u ex item d =
        merge_options (q_id (lq_row x)) u (lq_options x) (qp_options item)
          (set_question (q_id (lq_row x)) (qp_text item) (qp_percentage item)
             (qp_is_mandatory item) u d)
    \<and> audit_questions (merge_question sid u ex item d) =
        map (\<lambda>r. if q_id r = q_id (lq_row x)
                  then r\<lparr>q_text := qp_text item, q_percentage := qp_percentage item,
                         q_is_mandatory := qp_is_mandatory item,
                         q_updated_by := stamp u (q_updated_by r)\<rparr>
                  else r) (audit_questions d))
   \<and> (existing_get (\<lambda>q. q_id (lq_row q)) ex (qp_id item) = None \<longrightarrow>
      merge_question sid u ex item d =
        merge_options (next_id d) u [] (qp_options item)
          (add_question sid (qp_text item) (qp_percentage item) (qp_is_mandatory item) u d)
    \<and> audit_questions (merge_question sid u ex item d) =
        audit_questions d @
          [\<lparr>q_id = next_id d, q_scope_id = sid, q_text = qp_text item,
            q_percentage = qp_percentage item, q_is_mandatory = qp_is_mandatory item,
            q_isactive = True, q_created_by = u, q_updated_by = u\<rparr>]
    \<and> only_appends d (merge_question sid u ex item d))"
proof (intro conjI impI)
  assume n: "existing_get (\<lambda>q. q_id (lq_row q)) ex (qp_id item) = None"
  let ?d1 = "add_question sid (qp_text item) (qp_percentage item) (qp_is_mandatory item) u d"
  from n show eq: "merge_question sid u ex item d =
        merge_options (next_id d) u [] (qp_options item) ?d1"
    by (simp add: merge_question_def)
  show "only_appends d (merge_question sid u ex item d)"
    unfolding eq by (rule only_appends_trans [OF only_appends_add(3) merge_options_new])
  show "audit_questions (merge_question sid u ex item d) =
        audit_questions d @
          [\<lparr>q_id = next_id d, q_scope_id = sid, q_text = qp_text item,
            q_percentage = qp_percentage item, q_is_mandatory = qp_is_mandatory item,
            q_isactive = True, q_created_by = u, q_updated_by = u\<rparr>]"
    unfolding eq by (simp add: merge_options_keeps add_question_def)
qed (simp_all add: merge_question_def merge_options_keeps set_question_def)

lemma merge_scope_by_identity:
  "(existing_get (\<lambda>s. s_id (ls_row s)) ex (sp_id item) = Some x \<longrightarrow>
      merge_scope aid u ex item d =
        merge_questions (s_id (ls_row x)) u (ls_questions x) (sp_questions item)
          (set_scope (s_id (ls_row x)) (sp_name item) u d)
    \<and> audit_scopes (merge_scope aid u ex item d) =
        map (\<lambda>r. if s_id r = s_id (ls_row x)
                  then r\<lparr>s_name := sp_name item, s_updated_by := stamp u (s_updated_by r)\<rparr>
                  else r) (audit_scopes d))
   \<and> (existing_get (\<lambda>s. s_id (ls_row s)) ex (sp_id item) = None \<longrightarrow>
      merge_scope aid u ex item d =
        merge_questions (next_id d) u [] (sp_questions item)
          (add_scope aid (sp_name item) u d)
    \<and> audit_scopes (merge_scope aid u ex item d) =
        audit_scopes d @
          [\<lparr>s_id = next_id d, s_area_id = aid, s_name = sp_name item, s_isactive = True,
            s_created_by = u, s_updated_by = u\<rparr>]
    \<and> only_appends d (merge_scope aid u ex item d))"
proof (intro conjI impI)
  assume n: "existing_get (\<lambda>s. s_id (ls_row s)) ex (sp_id item) = None"
  let ?d1 = "add_scope aid (sp_name item) u d"
  from n show eq: "merge_scope aid u ex item d =
        merge_questions (next_id d) u [] (sp_questions item) ?d1"
    by (simp add: merge_scope_def)
  show "only_appends d (merge_scope aid u ex item d)"
    unfolding eq by (rule only_appends_trans [OF only_appends_add(2) merge_questions_new])
  show "audit_scopes (merge_scope aid u ex item d) =
        audit_scopes d @
          [\<lparr>s_id = next_id d, s_area_id = aid, s_name = sp_name item, s_isactive = True,
            s_created_by = u, s_updated_by = u\<rparr>]"
    unfolding eq by (simp add: merge_questions_keeps add_scope_def)
qed (simp_all add: merge_scope_def merge_questions_keeps set_scope_def)

lemma merge_area_by_identity:
  "(existing_get (\<lambda>a. a_id (la_row a)) ex (ap_id item) = Some x \<longrightarrow>
      merge_area tid u ex item d =
        merge_scopes (a_id (la_row x)) u (la_scopes x) (ap_scopes item)
          (set_area (a_id (la_row x)) (ap_name item) (ap_weightage item) u d)
    \<and> audit_areas (merge_area tid u ex item d) =
        map (\<lambda>r. if a_id r = a_id (la_row x)
                  then r\<lparr>a_name := ap_name item, a_weightage := ap_weightage item,
                         a_updated_by := stamp u (a_updated_by r)\<rparr>
                  else r) (audit_areas d))
   \<and> (existing_get (\<lambda>a. a_id (la_row a)) ex (ap_id item) = None \<longrightarrow>
      merge_area tid u ex item d =
        merge_scopes (next_id d) u [] (ap_scopes item)
          (add_area tid (ap_name item) (ap_weightage item) u d)
    \<and> audit_areas (merge_area tid u ex item d) =
        audit_areas d @
          [\<lparr>a_id = next_id d, a_template_id = tid, a_name = ap_name item,
            a_weightage = ap_weightage item, a_isactive = True,
            a_created_by = u, a_updated_by = u\<rparr>]
    \<and> only_appends d (merge_area tid u ex item d))"
proof (intro conjI impI)
  assume n: "existing_get (\<lambda>a. a_id (la_row a)) ex (ap_id item) = None"
  let ?d1 = "add_area tid (ap_name item) (ap_weightage item) u d"
  from n show eq: "merge_area tid u ex item d =
        merge_scopes (next_id d) u [] (ap_scopes item) ?d1"
    by (simp add: merge_area_def)
  show "only_appends d (merge_area tid u ex item d)"
    unfolding eq by (rule only_appends_trans [OF only_appends_add(1) merge_scopes_new])
  show "audit_areas (merge_area tid u ex item d) =
        audit_areas d @
          [\<lparr>a_id = next_id d, a_template_id = tid, a_name = ap_name item,
            a_weightage = ap_weightage item, a_isactive = True,
            a_created_by = u, a_updated_by = u\<rparr>]"
    unfolding eq by (simp add: merge_scopes_keeps add_area_def)
qed (simp_all add: merge_area_def merge_scopes_keeps set_area_def)

section \<open>What a merge writes\<close>



lemma rows_kept_refl [simp]: "rows_kept W d d"
  by (simp add: rows_kept_def)














lemma area_touched_within:
  "area_touched ex item \<subseteq> set (concat (map area_subtree ex))"
  by (auto simp: area_touched_def split: option.splits dest!: existing_get_Some)








section \<open>Reconciled items stay reconciled\<close>















section \<open>Items with different keys write different rows\<close>










section \<open>Each payload item is reconciled\<close>






















section \<open>The loaded tree\<close>














section \<open>Rows stay where they are\<close>

lemma keys_in_place_iff:
  "keys_in_place d d' \<longleftrightarrow>
     grows (map a_id (audit_areas d)) (map a_id (audit_areas d'))
   \<and> grows (map s_id (audit_scopes d)) (map s_id (audit_scopes d'))
   \<and> grows (map q_id (audit_questions d)) (map q_id (audit_questions d'))
   \<and> grows (map o_id (audit_question_options d)) (map o_id (audit_question_options d'))"
  by (simp add: keys_in_place_def grows_def take_map)

lemma keys_in_place_refl [simp]: "keys_in_place d d"
  by (simp add: keys_in_place_iff)







lemma keys_in_place_when:
  "keys_in_place d (g d) \<Longrightarrow> keys_in_place d (if c then g d else d)"
  by simp












section \<open>One new row for each unmatched item\<close>



























section \<open>The update reconciles by identity\<close>





end
